theory Spec2Isabelle
  imports Complex_Main "HOL-Library.Word"
begin

section \<open>ATtiny84A temperature controller\<close>

text \<open>
  The final iteration of the controller (the non-blocking sketch with the
  \<open>StatusLeds\<close> class) is embedded here. The sketch's \<open>float\<close> values are
  modelled as \<open>real\<close>: comparisons and arithmetic are the exact ones, rounding and
  the non-finite values of IEEE arithmetic are not represented. The one division the
  code guards against a zero divisor is modelled by \<open>fdiv\<close>, which has no result
  when the divisor is zero. \<open>unsigned long\<close> is a 32-bit word, \<open>uint16_t\<close> a 16-bit
  word and \<open>uint8_t\<close> an 8-bit word, as on the AVR target.
\<close>

subsection \<open>Hardware primitives\<close>

text \<open>
  \<open>analogRead\<close>, \<open>digitalWrite\<close> and \<open>millis\<close> belong to the Arduino core. The
  converter is an oracle \<open>adc\<close>: the value returned by the \<open>k\<close>-th conversion of the
  run on a given channel, as the C \<open>int\<close> that \<open>analogRead\<close> returns; \<open>reads\<close> counts
  the conversions made so far. \<open>writes\<close> is the history of \<open>digitalWrite\<close> calls
  (oldest first) and \<open>pinLevel\<close> the level each output was last driven to
  (\<open>True\<close> is \<open>HIGH\<close>).
\<close>

record hw =
  adc :: "8 word \<Rightarrow> nat \<Rightarrow> int"
  reads :: nat
  pinLevel :: "8 word \<Rightarrow> bool"
  writes :: "(8 word \<times> bool) list"

definition analogRead :: "8 word \<Rightarrow> hw \<Rightarrow> int \<times> hw" where
  "analogRead pin h = (adc h pin (reads h), h\<lparr>reads := reads h + 1\<rparr>)"

definition digitalWrite :: "8 word \<Rightarrow> bool \<Rightarrow> hw \<Rightarrow> hw" where
  "digitalWrite pin val h =
     h\<lparr>pinLevel := (pinLevel h)(pin := val), writes := writes h @ [(pin, val)]\<rparr>"

text \<open>
  The pin numbers behind the core's macros \<open>PIN_PB0\<close>, \<open>PIN_PB1\<close>, \<open>PIN_PB2\<close>,
  \<open>PIN_PA0\<close>, \<open>A7\<close> and \<open>A3\<close> are not part of the sketch; they are a parameter.
\<close>

record board =
  PIN_PB0 :: "8 word"
  PIN_PB1 :: "8 word"
  PIN_PB2 :: "8 word"
  PIN_PA0 :: "8 word"
  A7 :: "8 word"
  A3 :: "8 word"

definition SSR_PIN :: "board \<Rightarrow> 8 word" where "SSR_PIN b = PIN_PB0 b"
definition LED_ABOVE_PIN :: "board \<Rightarrow> 8 word" where "LED_ABOVE_PIN b = PIN_PB1 b"
definition LED_INBAND_PIN :: "board \<Rightarrow> 8 word" where "LED_INBAND_PIN b = PIN_PB2 b"
definition LED_BELOW_PIN :: "board \<Rightarrow> 8 word" where "LED_BELOW_PIN b = PIN_PA0 b"
definition TEMP_PIN :: "board \<Rightarrow> 8 word" where "TEMP_PIN b = A7 b"
definition POT_PIN :: "board \<Rightarrow> 8 word" where "POT_PIN b = A3 b"

subsection \<open>Constants of the sketch\<close>

definition VREF :: real where "VREF = 5.0"
definition LM19_V0C :: real where "LM19_V0C = 1.8663"
definition LM19_SLOPE :: real where "LM19_SLOPE = 0.01169"

definition MIN_SET_F :: real where "MIN_SET_F = 50.0"
definition MAX_SET_F :: real where "MAX_SET_F = 90.0"
definition MID_SET_F :: real where "MID_SET_F = 72.0"

definition HYST_F :: real where "HYST_F = 2.0"
definition TEMP_ALPHA :: real where "TEMP_ALPHA = 0.1"

definition TEMP_SAMPLE_MS :: "32 word" where "TEMP_SAMPLE_MS = 250"
definition CONTROL_UPDATE_MS :: "32 word" where "CONTROL_UPDATE_MS = 1000"
definition LED_UPDATE_MS :: "32 word" where "LED_UPDATE_MS = 200"

subsection \<open>The class StatusLeds\<close>

datatype Region = Below | InBandBelow | AtSetPoint | InBandAbove | Above

text \<open>The private members, without their leading underscore.\<close>

record StatusLeds =
  abovePin :: "8 word"
  inBandPin :: "8 word"
  belowPin :: "8 word"
  hysteresisF :: real
  updateIntervalMs :: "32 word"
  lastUpdate :: "32 word"
  region :: Region
  lastRegion :: Region

definition StatusLeds_new ::
  "8 word \<Rightarrow> 8 word \<Rightarrow> 8 word \<Rightarrow> real \<Rightarrow> 32 word \<Rightarrow> StatusLeds" where
  "StatusLeds_new abovePin' inBandPin' belowPin' hysteresisF' updateIntervalMs' =
     \<lparr>abovePin = abovePin', inBandPin = inBandPin', belowPin = belowPin',
      hysteresisF = hysteresisF', updateIntervalMs = updateIntervalMs',
      lastUpdate = 0, region = AtSetPoint, lastRegion = AtSetPoint\<rparr>"

definition setDisplayState :: "real \<Rightarrow> real \<Rightarrow> StatusLeds \<Rightarrow> StatusLeds" where
  "setDisplayState tempF setPointF' L =
     (let halfBand = hysteresisF L * 0.5 in
      if tempF < setPointF' - halfBand then L\<lparr>region := Below\<rparr>
      else if tempF \<ge> setPointF' - halfBand \<and> tempF \<le> setPointF' then L\<lparr>region := InBandBelow\<rparr>
      else if tempF \<le> setPointF' + halfBand \<and> tempF \<ge> setPointF' then L\<lparr>region := InBandAbove\<rparr>
      else if tempF > setPointF' + halfBand then L\<lparr>region := Above\<rparr>
      else L\<lparr>region := AtSetPoint\<rparr>)"

text \<open>
  The \<open>switch\<close> of \<open>updateLEDs\<close>: the three flags start \<open>false\<close> and each case
  raises its own. The result is \<open>(aboveOn, inBandOn, belowOn)\<close>.
\<close>

fun ledFlags :: "Region \<Rightarrow> bool \<times> bool \<times> bool" where
  "ledFlags Below = (False, False, True)"
| "ledFlags InBandBelow = (False, True, True)"
| "ledFlags AtSetPoint = (False, True, False)"
| "ledFlags InBandAbove = (True, True, False)"
| "ledFlags Above = (True, False, False)"

definition updateLEDs :: "32 word \<Rightarrow> StatusLeds \<times> hw \<Rightarrow> StatusLeds \<times> hw" where
  "updateLEDs now Lh =
     (let L = fst Lh; h = snd Lh in
      if now - lastUpdate L < updateIntervalMs L then (L, h)
      else
        let L1 = L\<lparr>lastUpdate := now\<rparr> in
        if region L1 = lastRegion L1 then (L1, h)
        else
          let L2 = L1\<lparr>lastRegion := region L1\<rparr>;
              (aboveOn, inBandOn, belowOn) = ledFlags (region L2);
              h1 = digitalWrite (abovePin L2) aboveOn h;
              h2 = digitalWrite (inBandPin L2) inBandOn h1;
              h3 = digitalWrite (belowPin L2) belowOn h2
          in (L2, h3))"

subsection \<open>The sketch: sensor and dial\<close>

text \<open>
  Float division in the exact model: there is a quotient when the divisor is not
  zero; \<open>None\<close> stands for the non-finite value the hardware division would give.
  It is used where the code tests the divisor itself; every other division of the
  sketch has a non-zero literal or constant as divisor.
\<close>

definition fdiv :: "real \<Rightarrow> real \<Rightarrow> real option" where
  "fdiv x y = (if y = 0 then None else Some (x / y))"

text \<open>The global variables of the sketch, the \<open>statusLeds\<close> object and the hardware.\<close>

record state =
  filteredTempF :: real
  heaterOn :: bool
  inDeadband :: bool
  setPointF :: real
  lastTempSampleMs :: "32 word"
  lastControlMs :: "32 word"
  lastLedBlinkMs :: "32 word"
  ledBlinkState :: bool
  statusLeds :: StatusLeds
  hardware :: hw

definition initState :: "board \<Rightarrow> hw \<Rightarrow> state" where
  "initState b h =
     \<lparr>filteredTempF = 72.0, heaterOn = False, inDeadband = False, setPointF = 72.0,
      lastTempSampleMs = 0, lastControlMs = 0, lastLedBlinkMs = 0, ledBlinkState = False,
      statusLeds = StatusLeds_new (LED_ABOVE_PIN b) (LED_INBAND_PIN b) (LED_BELOW_PIN b)
                     HYST_F LED_UPDATE_MS,
      hardware = h\<rparr>"

definition N_SAMPLES :: nat where "N_SAMPLES = 8"

text \<open>
  The \<open>for\<close> loop of \<open>readTemperatureC\<close>: \<open>i\<close> is the loop counter and
  \<open>sum32\<close> the \<open>uint32_t\<close> accumulator \<open>sum\<close>; adding the \<open>int\<close> sample
  converts it to \<open>uint32_t\<close>.
\<close>

function sampleLoop :: "8 word \<Rightarrow> nat \<Rightarrow> 32 word \<Rightarrow> hw \<Rightarrow> 32 word \<times> hw" where
  "sampleLoop pin i sum32 h =
     (if i < N_SAMPLES then
        (case analogRead pin h of (v, h') \<Rightarrow> sampleLoop pin (i + 1) (sum32 + word_of_int v) h')
      else (sum32, h))"
  by pat_completeness auto
termination
  by (relation "measure (\<lambda>(pin, i, sum32, h). N_SAMPLES - i)") auto

declare sampleLoop.simps [simp del]

text \<open>The first half of \<open>readTemperatureC\<close>: the averaged sample as a voltage.\<close>

definition readVoltage :: "board \<Rightarrow> hw \<Rightarrow> real \<times> hw" where
  "readVoltage b h =
     (case sampleLoop (TEMP_PIN b) 0 0 h of (sum32, h1) \<Rightarrow>
        let raw = real (unat sum32) / real N_SAMPLES;
            v = (raw * VREF) / 1023.0
        in (v, h1))"

text \<open>The second half: the clamp and the transfer function.\<close>

definition readTemperatureC :: "board \<Rightarrow> hw \<Rightarrow> real \<times> hw" where
  "readTemperatureC b h =
     (case readVoltage b h of (v, h1) \<Rightarrow>
        let v1 = (if v < 0.2 then 0.2 else v);
            v2 = (if v1 > 2.8 then 2.8 else v1);
            tC = (LM19_V0C - v2) / LM19_SLOPE
        in (tC, h1))"

definition readTemperatureFOnce :: "board \<Rightarrow> hw \<Rightarrow> real \<times> hw" where
  "readTemperatureFOnce b h =
     (case readTemperatureC b h of (c, h1) \<Rightarrow> (c * 9.0 / 5.0 + 32.0, h1))"

text \<open>\<open>MID_RAW\<close> is a local constant of \<open>readSetpointF\<close>.\<close>

definition MID_RAW :: real where "MID_RAW = 511.5"

text \<open>The guarded quotient \<open>(spanRaw > 0.0f) ? (x / spanRaw) : 0.0f\<close> of both segments.\<close>

definition segFrac :: "real \<Rightarrow> real \<Rightarrow> real option" where
  "segFrac x spanRaw = (if spanRaw > 0.0 then fdiv x spanRaw else Some 0.0)"

text \<open>
  \<open>readSetpointF\<close> from its \<open>if\<close> on: the mapping of the float \<open>raw\<close>. Only the
  upper branch stores its result in the global \<open>setPointF\<close>.
\<close>

definition mapSetpoint :: "real \<Rightarrow> state \<Rightarrow> (real \<times> state) option" where
  "mapSetpoint raw st =
     (if raw \<le> MID_RAW then
        (let spanRaw = MID_RAW - 0.0;
             spanTemp = MID_SET_F - MIN_SET_F
         in case segFrac raw spanRaw of
              None \<Rightarrow> None
            | Some fracv \<Rightarrow> Some (MIN_SET_F + spanTemp * fracv, st))
      else
        (let spanRaw = 1023.0 - MID_RAW;
             spanTemp = MAX_SET_F - MID_SET_F
         in case segFrac (raw - MID_RAW) spanRaw of
              None \<Rightarrow> None
            | Some fracv \<Rightarrow>
                let st1 = st\<lparr>setPointF := MID_SET_F + spanTemp * fracv\<rparr>
                in Some (setPointF st1, st1)))"

definition readSetpointF :: "board \<Rightarrow> state \<Rightarrow> (real \<times> state) option" where
  "readSetpointF b st =
     (case analogRead (POT_PIN b) (hardware st) of (v, h1) \<Rightarrow>
        let rawADC = (word_of_int v :: 16 word);
            raw = real (unat rawADC)
        in mapSetpoint raw (st\<lparr>hardware := h1\<rparr>))"

subsection \<open>The sketch: tasks and main loop\<close>

definition taskSampleTemperature :: "board \<Rightarrow> 32 word \<Rightarrow> state \<Rightarrow> state" where
  "taskSampleTemperature b now st =
     (if now - lastTempSampleMs st < TEMP_SAMPLE_MS then st
      else
        let st1 = st\<lparr>lastTempSampleMs := now\<rparr> in
        case readTemperatureFOnce b (hardware st1) of (tempFraw, h1) \<Rightarrow>
          let st2 = st1\<lparr>hardware := h1\<rparr>
          in st2\<lparr>filteredTempF :=
                   filteredTempF st2 * (1.0 - TEMP_ALPHA) + tempFraw * TEMP_ALPHA\<rparr>)"

definition taskUpdateControl :: "board \<Rightarrow> 32 word \<Rightarrow> state \<Rightarrow> state option" where
  "taskUpdateControl b now st =
     (if now - lastControlMs st < CONTROL_UPDATE_MS then Some st
      else
        let st1 = st\<lparr>lastControlMs := now\<rparr> in
        case readSetpointF b st1 of
          None \<Rightarrow> None
        | Some (setF, st2) \<Rightarrow>
            let tempF = filteredTempF st2;
                halfBand = HYST_F * 0.5;
                wantOn = heaterOn st2;
                st3 = st2\<lparr>inDeadband := False\<rparr>;
                (wantOn1, st4) =
                  (if tempF \<le> setF - halfBand then (True, st3)
                   else if tempF \<ge> setF + halfBand then (False, st3)
                   else (wantOn, st3\<lparr>inDeadband := True\<rparr>));
                st5 = st4\<lparr>heaterOn := wantOn1\<rparr>
            in Some (st5\<lparr>hardware :=
                       digitalWrite (SSR_PIN b) (heaterOn st5) (hardware st5)\<rparr>))"

text \<open>One iteration of \<open>loop\<close>; \<open>now\<close> is what \<open>millis()\<close> returned.\<close>

definition loop :: "board \<Rightarrow> 32 word \<Rightarrow> state \<Rightarrow> state option" where
  "loop b now st =
     (let st1 = taskSampleTemperature b now st in
      case taskUpdateControl b now st1 of
        None \<Rightarrow> None
      | Some st2 \<Rightarrow>
          let L1 = setDisplayState (filteredTempF st2) (setPointF st2) (statusLeds st2)
          in case updateLEDs now (L1, hardware st2) of (L2, h2) \<Rightarrow>
               Some (st2\<lparr>statusLeds := L2, hardware := h2\<rparr>))"

subsection \<open>Example inputs\<close>

text \<open>
  A board with six different pin numbers, a converter that always returns 0 with all
  outputs low and nothing written yet, and a \<open>StatusLeds\<close> object as the
  constructor leaves it, with the sketch's hysteresis width and display interval.
\<close>

definition demoBoard :: board where
  "demoBoard = \<lparr>PIN_PB0 = 10, PIN_PB1 = 9, PIN_PB2 = 8, PIN_PA0 = 0, A7 = 7, A3 = 3\<rparr>"

definition demoHw :: hw where
  "demoHw = \<lparr>adc = (\<lambda>pin k. 0), reads = 0, pinLevel = (\<lambda>pin. False), writes = []\<rparr>"

definition demoLeds :: StatusLeds where
  "demoLeds = StatusLeds_new 1 2 0 HYST_F LED_UPDATE_MS"

text \<open>
  The float \<open>raw\<close> that \<open>readSetpointF\<close> computes from the dial sample it reads
  next in state \<open>st\<close>.
\<close>

definition potRaw :: "board \<Rightarrow> state \<Rightarrow> real" where
  "potRaw b st = real (unat (word_of_int (adc (hardware st) (POT_PIN b) (reads (hardware st))) :: 16 word))"

text \<open>
  Three states at power-up values, except for a cold filtered temperature, a heater
  that is on, and a temperature inside the band with the heater on.
\<close>

definition demoCold :: state where
  "demoCold = (initState demoBoard demoHw)\<lparr>filteredTempF := 40\<rparr>"

definition demoHot :: state where
  "demoHot = (initState demoBoard demoHw)\<lparr>heaterOn := True\<rparr>"

definition demoHold :: state where
  "demoHold = (initState demoBoard demoHw)\<lparr>filteredTempF := 50, heaterOn := True\<rparr>"

text \<open>
  A state in which the sampling task ran 100 ms before the control tick at 1000 ms,
  and the power-up state with the dial at the top of its range.
\<close>

definition demoStale :: state where
  "demoStale = (initState demoBoard demoHw)\<lparr>lastTempSampleMs := 900\<rparr>"

definition demoHigh :: state where
  "demoHigh = initState demoBoard (demoHw\<lparr>adc := \<lambda>pin k. 1023\<rparr>)"

subsection \<open>Polling over time\<close>

text \<open>
  \<open>millis()\<close> at \<open>t\<close> milliseconds after power-up: the 32-bit counter wraps.
\<close>

definition millisAt :: "nat \<Rightarrow> 32 word" where
  "millisAt t = word_of_nat t"

text \<open>
  The sampling task polled at the times \<open>ts\<close>, one call per time; the result lists
  the times at which the body ran, seen by the converter being read.
\<close>

fun pollSample :: "board \<Rightarrow> nat list \<Rightarrow> state \<Rightarrow> nat list" where
  "pollSample b [] st = []"
| "pollSample b (t # ts) st =
     (let st' = taskSampleTemperature b (millisAt t) st in
      (if reads (hardware st') \<noteq> reads (hardware st) then [t] else [])
        @ pollSample b ts st')"

text \<open>
  The display polled as \<open>loop\<close> does, \<open>setDisplayState\<close> then \<open>updateLEDs\<close>, with
  a time, a temperature and a setpoint per call; the result lists the time and the
  region of each call that wrote the indicators.
\<close>

fun pollLeds :: "(nat \<times> real \<times> real) list \<Rightarrow> StatusLeds \<Rightarrow> hw \<Rightarrow> (nat \<times> Region) list" where
  "pollLeds [] L h = []"
| "pollLeds ((t, tempF, sp) # cs) L h =
     (let L1 = setDisplayState tempF sp L in
      case updateLEDs (millisAt t) (L1, h) of (L2, h2) \<Rightarrow>
        (if writes h2 \<noteq> writes h then [(t, region L1)] else []) @ pollLeds cs L2 h2)"

text \<open>The power-up state with the last sampling 256 ms before the counter wraps.\<close>

definition demoWrap :: state where
  "demoWrap = (initState demoBoard demoHw)\<lparr>lastTempSampleMs := 4294967040\<rparr>"


section \<open>Basic facts\<close>


lemma setDisplayState_never_AtSetPoint:
  "region (setDisplayState tempF sp L) \<noteq> AtSetPoint"
  by (simp add: setDisplayState_def Let_def)

lemma setDisplayState_equal:
  "0 \<le> hysteresisF L \<Longrightarrow> region (setDisplayState sp sp L) = InBandBelow"
  by (simp add: setDisplayState_def Let_def)

lemma updateLEDs_region: "region (fst (updateLEDs now (L, h))) = region L"
  by (simp add: updateLEDs_def Let_def split: prod.splits)

lemma updateLEDs_lastRegion:
  "lastRegion (fst (updateLEDs now (L, h))) = lastRegion L \<or>
   lastRegion (fst (updateLEDs now (L, h))) = region L"
  by (simp add: updateLEDs_def Let_def split: prod.splits)

lemma updateLEDs_writes:
  "writes (snd (updateLEDs now (L, h))) =
     (if now - lastUpdate L < updateIntervalMs L \<or> region L = lastRegion L then writes h
      else writes h @ [(abovePin L, fst (ledFlags (region L))),
                       (inBandPin L, fst (snd (ledFlags (region L)))),
                       (belowPin L, snd (snd (ledFlags (region L))))])"
  by (simp add: updateLEDs_def Let_def digitalWrite_def split: prod.splits)


lemma segFrac_total: "segFrac x spanRaw \<noteq> None"
  by (simp add: segFrac_def fdiv_def)

lemma mapSetpoint_lower:
  "raw \<le> MID_RAW \<Longrightarrow> mapSetpoint raw st = Some (MIN_SET_F + (MID_SET_F - MIN_SET_F) * (raw / MID_RAW), st)"
  by (simp add: mapSetpoint_def segFrac_def fdiv_def MID_RAW_def Let_def)

lemma mapSetpoint_upper:
  "\<not> raw \<le> MID_RAW \<Longrightarrow> mapSetpoint raw st =
     Some (MID_SET_F + (MAX_SET_F - MID_SET_F) * ((raw - MID_RAW) / (1023 - MID_RAW)),
           st\<lparr>setPointF := MID_SET_F + (MAX_SET_F - MID_SET_F) * ((raw - MID_RAW) / (1023 - MID_RAW))\<rparr>)"
  by (simp add: mapSetpoint_def segFrac_def fdiv_def MID_RAW_def Let_def)

lemma sampleLoop_reads:
  "reads (snd (sampleLoop pin i s h)) = reads h + (N_SAMPLES - i)"
proof (induction pin i s h rule: sampleLoop.induct)
  case (1 pin i s h)
  show ?case
  proof (cases "i < N_SAMPLES")
    case True
    then show ?thesis
      using "1.IH" [OF True, of "adc h pin (reads h)" "h\<lparr>reads := reads h + 1\<rparr>"]
      by (subst sampleLoop.simps) (simp add: analogRead_def)
  next
    case False
    then show ?thesis by (subst sampleLoop.simps) simp
  qed
qed

lemma sampleLoop_frame:
  "adc (snd (sampleLoop pin i s h)) = adc h \<and> writes (snd (sampleLoop pin i s h)) = writes h
    \<and> pinLevel (snd (sampleLoop pin i s h)) = pinLevel h"
proof (induction pin i s h rule: sampleLoop.induct)
  case (1 pin i s h)
  show ?case
  proof (cases "i < N_SAMPLES")
    case True
    then show ?thesis
      using "1.IH" [OF True, of "adc h pin (reads h)" "h\<lparr>reads := reads h + 1\<rparr>"]
      by (subst (1 2 3) sampleLoop.simps) (simp add: analogRead_def)
  next
    case False
    then show ?thesis by (subst (1 2 3) sampleLoop.simps) simp
  qed
qed

lemma sampleLoop_sum:
  "fst (sampleLoop pin i s h) = s + (\<Sum>k = i..<N_SAMPLES. word_of_int (adc h pin (reads h + (k - i))))"
proof (induction pin i s h rule: sampleLoop.induct)
  case (1 pin i s h)
  show ?case
  proof (cases "i < N_SAMPLES")
    case True
    have "(\<Sum>k = i..<N_SAMPLES. word_of_int (adc h pin (reads h + (k - i))) :: 32 word) =
          word_of_int (adc h pin (reads h)) + (\<Sum>k = Suc i..<N_SAMPLES. word_of_int (adc h pin (reads h + (k - i))))"
      using True by (simp add: sum.atLeast_Suc_lessThan)
    moreover have "(\<Sum>k = Suc i..<N_SAMPLES. word_of_int (adc h pin (reads h + (k - i))) :: 32 word) =
       (\<Sum>k = Suc i..<N_SAMPLES. word_of_int (adc h pin (Suc (reads h) + (k - Suc i))))"
    proof (rule sum.cong)
      fix k assume "k \<in> {Suc i..<N_SAMPLES}"
      then have "reads h + (k - i) = Suc (reads h) + (k - Suc i)" by auto
      then show "(word_of_int (adc h pin (reads h + (k - i))) :: 32 word) =
                 word_of_int (adc h pin (Suc (reads h) + (k - Suc i)))"
        by (rule arg_cong)
    qed simp
    ultimately show ?thesis
      using "1.IH" [OF True, of "adc h pin (reads h)" "h\<lparr>reads := reads h + 1\<rparr>"] True
      by (subst sampleLoop.simps) (simp add: analogRead_def add.assoc)
  next
    case False
    then show ?thesis by (subst sampleLoop.simps) simp
  qed
qed

lemma readVoltage_samples:
  "fst (readVoltage b h) =
     real (unat (\<Sum>k = 0..<8. word_of_int (adc h (TEMP_PIN b) (reads h + k)) :: 32 word)) / 8 * VREF / 1023"
proof -
  have "fst (sampleLoop (TEMP_PIN b) 0 0 h) =
        (\<Sum>k = 0..<8. word_of_int (adc h (TEMP_PIN b) (reads h + k)) :: 32 word)"
    using sampleLoop_sum [of "TEMP_PIN b" 0 0 h] by (simp add: N_SAMPLES_def)
  then show ?thesis
    by (simp add: readVoltage_def N_SAMPLES_def Let_def case_prod_beta)
qed

lemma readVoltage_hw:
  "reads (snd (readVoltage b h)) = reads h + 8 \<and> adc (snd (readVoltage b h)) = adc h
   \<and> writes (snd (readVoltage b h)) = writes h \<and> pinLevel (snd (readVoltage b h)) = pinLevel h"
  using sampleLoop_reads [of "TEMP_PIN b" 0 0 h] sampleLoop_frame [of "TEMP_PIN b" 0 0 h]
  by (simp add: readVoltage_def N_SAMPLES_def Let_def case_prod_beta)

lemma readTemperatureC_value:
  "fst (readTemperatureC b h) =
     (LM19_V0C - (if fst (readVoltage b h) < 0.2 then 0.2
                  else if fst (readVoltage b h) > 2.8 then 2.8 else fst (readVoltage b h))) / LM19_SLOPE"
  by (simp add: readTemperatureC_def Let_def case_prod_beta)

lemma readTemperatureC_hw: "snd (readTemperatureC b h) = snd (readVoltage b h)"
  by (simp add: readTemperatureC_def Let_def case_prod_beta)

lemma updateLEDs_pinLevel:
  "pinLevel (snd (updateLEDs now (L, h))) =
     (if now - lastUpdate L < updateIntervalMs L \<or> region L = lastRegion L then pinLevel h
      else (pinLevel h)(abovePin L := fst (ledFlags (region L)),
                        inBandPin L := fst (snd (ledFlags (region L))),
                        belowPin L := snd (snd (ledFlags (region L)))))"
  by (simp add: updateLEDs_def Let_def digitalWrite_def split: prod.splits)

lemma readSetpointF_lower:
  assumes "potRaw b st \<le> MID_RAW"
  shows "readSetpointF b st =
     Some (MIN_SET_F + (MID_SET_F - MIN_SET_F) * (potRaw b st / MID_RAW),
           st\<lparr>hardware := (hardware st)\<lparr>reads := reads (hardware st) + 1\<rparr>\<rparr>)"
  using assms by (simp add: readSetpointF_def analogRead_def potRaw_def Let_def mapSetpoint_lower)

lemma readSetpointF_upper:
  assumes "\<not> potRaw b st \<le> MID_RAW"
  shows "readSetpointF b st =
     Some (MID_SET_F + (MAX_SET_F - MID_SET_F) * ((potRaw b st - MID_RAW) / (1023 - MID_RAW)),
           st\<lparr>hardware := (hardware st)\<lparr>reads := reads (hardware st) + 1\<rparr>,
              setPointF := MID_SET_F + (MAX_SET_F - MID_SET_F) * ((potRaw b st - MID_RAW) / (1023 - MID_RAW))\<rparr>)"
  using assms by (simp add: readSetpointF_def analogRead_def potRaw_def Let_def mapSetpoint_upper)

lemma readSetpointF_frame:
  assumes "readSetpointF b st = Some (s, st')"
  shows "filteredTempF st' = filteredTempF st \<and> heaterOn st' = heaterOn st
       \<and> inDeadband st' = inDeadband st
       \<and> lastTempSampleMs st' = lastTempSampleMs st \<and> lastControlMs st' = lastControlMs st
       \<and> statusLeds st' = statusLeds st
       \<and> writes (hardware st') = writes (hardware st)
       \<and> pinLevel (hardware st') = pinLevel (hardware st)
       \<and> adc (hardware st') = adc (hardware st)
       \<and> reads (hardware st') = reads (hardware st) + 1"
proof (cases "potRaw b st \<le> MID_RAW")
  case True
  from readSetpointF_lower [OF True] assms show ?thesis by auto
next
  case False
  from readSetpointF_upper [OF False] assms show ?thesis by auto
qed

lemma readSetpointF_returns: "\<exists>s st'. readSetpointF b st = Some (s, st')"
  by (cases "potRaw b st \<le> MID_RAW") (simp_all add: readSetpointF_lower readSetpointF_upper)

lemma taskUpdateControl_due:
  assumes due: "\<not> (now - lastControlMs st < CONTROL_UPDATE_MS)"
    and rd: "readSetpointF b (st\<lparr>lastControlMs := now\<rparr>) = Some (s, st2)"
  shows "taskUpdateControl b now st =
     Some (st2\<lparr>inDeadband := \<not> (filteredTempF st \<le> s - HYST_F * 0.5) \<and> \<not> (filteredTempF st \<ge> s + HYST_F * 0.5),
              heaterOn := (if filteredTempF st \<le> s - HYST_F * 0.5 then True
                           else if filteredTempF st \<ge> s + HYST_F * 0.5 then False
                           else heaterOn st),
              hardware := digitalWrite (SSR_PIN b)
                            (if filteredTempF st \<le> s - HYST_F * 0.5 then True
                             else if filteredTempF st \<ge> s + HYST_F * 0.5 then False
                             else heaterOn st) (hardware st2)\<rparr>)"
  using due rd readSetpointF_frame [OF rd]
  by (simp add: taskUpdateControl_def Let_def)

lemma demo_readSetpointF:
  assumes "hardware st = demoHw"
  shows "readSetpointF demoBoard st = Some (50, st\<lparr>hardware := demoHw\<lparr>reads := 1\<rparr>\<rparr>)"
proof -
  have "potRaw demoBoard st = 0" using assms by (simp add: potRaw_def demoHw_def)
  then show ?thesis
    using readSetpointF_lower [of demoBoard st] assms
    by (simp add: MID_RAW_def MIN_SET_F_def demoHw_def)
qed

lemma taskSampleTemperature_frame:
  "heaterOn (taskSampleTemperature b now st) = heaterOn st
 \<and> inDeadband (taskSampleTemperature b now st) = inDeadband st
 \<and> setPointF (taskSampleTemperature b now st) = setPointF st
 \<and> lastControlMs (taskSampleTemperature b now st) = lastControlMs st
 \<and> statusLeds (taskSampleTemperature b now st) = statusLeds st
 \<and> writes (hardware (taskSampleTemperature b now st)) = writes (hardware st)
 \<and> pinLevel (hardware (taskSampleTemperature b now st)) = pinLevel (hardware st)
 \<and> adc (hardware (taskSampleTemperature b now st)) = adc (hardware st)"
  using readVoltage_hw [of b "hardware st"]
  by (simp add: taskSampleTemperature_def readTemperatureFOnce_def readTemperatureC_hw
        Let_def case_prod_beta)

lemma taskSampleTemperature_skip:
  "now - lastTempSampleMs st < TEMP_SAMPLE_MS \<Longrightarrow> taskSampleTemperature b now st = st"
  by (simp add: taskSampleTemperature_def)

lemma taskSampleTemperature_run:
  assumes "\<not> (now - lastTempSampleMs st < TEMP_SAMPLE_MS)"
  shows "lastTempSampleMs (taskSampleTemperature b now st) = now
       \<and> reads (hardware (taskSampleTemperature b now st)) = reads (hardware st) + 8
       \<and> filteredTempF (taskSampleTemperature b now st) =
           filteredTempF st * (1 - TEMP_ALPHA)
             + (fst (readTemperatureC b (hardware st)) * 9 / 5 + 32) * TEMP_ALPHA"
  using assms readVoltage_hw [of b "hardware st"]
  by (simp add: taskSampleTemperature_def readTemperatureFOnce_def readTemperatureC_hw
        Let_def case_prod_beta)

lemma loop_due:
  assumes due: "\<not> (now - lastControlMs st < CONTROL_UPDATE_MS)"
    and rd: "readSetpointF b ((taskSampleTemperature b now st)\<lparr>lastControlMs := now\<rparr>) = Some (s, st2)"
  shows "\<exists>st'. loop b now st = Some st'
       \<and> setPointF st' = setPointF st2
       \<and> filteredTempF st' = filteredTempF (taskSampleTemperature b now st)
       \<and> heaterOn st' = (if filteredTempF st' \<le> s - HYST_F * 0.5 then True
                          else if filteredTempF st' \<ge> s + HYST_F * 0.5 then False
                          else heaterOn st)
       \<and> region (statusLeds st') =
           region (setDisplayState (filteredTempF st') (setPointF st2) (statusLeds st))"
proof -
  let ?st1 = "taskSampleTemperature b now st"
  have due1: "\<not> (now - lastControlMs ?st1 < CONTROL_UPDATE_MS)"
    using due taskSampleTemperature_frame [of b now st] by simp
  note tk = taskUpdateControl_due [OF due1 rd]
  note fr = readSetpointF_frame [OF rd]
  note sf = taskSampleTemperature_frame [of b now st]
  show ?thesis
    using fr sf
    by (simp add: loop_def tk Let_def case_prod_beta updateLEDs_region)
qed

lemma potRaw_lastControlMs: "potRaw b (st\<lparr>lastControlMs := now\<rparr>) = potRaw b st"
  by (simp add: potRaw_def)

lemma demoStale_loop:
  "\<exists>s st2 st'.
      readSetpointF demoBoard ((taskSampleTemperature demoBoard 1000 demoStale)\<lparr>lastControlMs := 1000\<rparr>)
        = Some (s, st2)
    \<and> loop demoBoard 1000 demoStale = Some st'
    \<and> s = 50 \<and> filteredTempF st' = 72 \<and> setPointF st' = 72 \<and> \<not> heaterOn st'
    \<and> region (statusLeds st') = InBandBelow
    \<and> region (setDisplayState (filteredTempF st') s (statusLeds demoStale)) = Above"
proof -
  have skip: "taskSampleTemperature demoBoard 1000 demoStale = demoStale"
    by (rule taskSampleTemperature_skip)
      (simp add: demoStale_def initState_def TEMP_SAMPLE_MS_def)
  have due: "\<not> (1000 - lastControlMs demoStale < CONTROL_UPDATE_MS)"
    by (simp add: demoStale_def initState_def CONTROL_UPDATE_MS_def)
  have hwd: "hardware (demoStale\<lparr>lastControlMs := 1000\<rparr>) = demoHw"
    by (simp add: demoStale_def initState_def)
  have rd: "readSetpointF demoBoard ((taskSampleTemperature demoBoard 1000 demoStale)\<lparr>lastControlMs := 1000\<rparr>)
      = Some (50, demoStale\<lparr>lastControlMs := 1000, hardware := demoHw\<lparr>reads := 1\<rparr>\<rparr>)"
    unfolding skip using demo_readSetpointF [OF hwd] by simp
  from loop_due [OF due rd] obtain st' where l: "loop demoBoard 1000 demoStale = Some st'"
    and sp: "setPointF st' = setPointF (demoStale\<lparr>lastControlMs := 1000, hardware := demoHw\<lparr>reads := 1\<rparr>\<rparr>)"
    and ft: "filteredTempF st' = filteredTempF (taskSampleTemperature demoBoard 1000 demoStale)"
    and ht: "heaterOn st' = (if filteredTempF st' \<le> 50 - HYST_F * 0.5 then True
                          else if filteredTempF st' \<ge> 50 + HYST_F * 0.5 then False
                          else heaterOn demoStale)"
    and rg: "region (statusLeds st') =
           region (setDisplayState (filteredTempF st')
             (setPointF (demoStale\<lparr>lastControlMs := 1000, hardware := demoHw\<lparr>reads := 1\<rparr>\<rparr>))
             (statusLeds demoStale))"
    by blast
  have f72: "filteredTempF st' = 72" using ft unfolding skip by (simp add: demoStale_def initState_def)
  have s72: "setPointF st' = 72" using sp by (simp add: demoStale_def initState_def)
  have off: "\<not> heaterOn st'" using ht f72 by (simp add: HYST_F_def)
  have r1: "region (statusLeds st') = InBandBelow"
    using rg f72
    by (simp add: demoStale_def initState_def setDisplayState_def StatusLeds_new_def HYST_F_def Let_def)
  have r2: "region (setDisplayState (filteredTempF st') 50 (statusLeds demoStale)) = Above"
    using f72
    by (simp add: demoStale_def initState_def setDisplayState_def StatusLeds_new_def HYST_F_def Let_def)
  show ?thesis using rd l f72 s72 off r1 r2 by blast
qed

lemma millisAt_elapsed:
  assumes "t0 \<le> t"
  shows "unat (millisAt t - millisAt t0) = (t - t0) mod 2 ^ 32"
proof -
  have "millisAt t - millisAt t0 = (word_of_nat (t - t0) :: 32 word)"
    using assms by (simp add: millisAt_def)
  then show ?thesis by (simp add: unat_of_nat)
qed

lemma millisAt_elapsed_le:
  "t0 \<le> t \<Longrightarrow> unat (millisAt t - millisAt t0) \<le> t - t0"
  by (simp add: millisAt_elapsed)

lemma wrap_difference:
  assumes "d < 2 ^ 32"
  shows "unat ((w + word_of_nat d) - (w :: 32 word)) = d"
  using assms by (simp add: unat_of_nat)

lemma sample_due_nat:
  "(\<not> (now - lastTempSampleMs st < TEMP_SAMPLE_MS)) = (250 \<le> unat (now - lastTempSampleMs st))"
  by (simp add: TEMP_SAMPLE_MS_def word_less_nat_alt not_less)

lemma sample_executes_iff:
  "(reads (hardware (taskSampleTemperature b now st)) \<noteq> reads (hardware st))
     = (250 \<le> unat (now - lastTempSampleMs st))"
proof (cases "now - lastTempSampleMs st < TEMP_SAMPLE_MS")
  case True
  then show ?thesis using sample_due_nat [of now st] by (simp add: taskSampleTemperature_skip)
next
  case False
  then show ?thesis
    using sample_due_nat [of now st] taskSampleTemperature_run [OF False, of b] by simp
qed

lemma pollSample_after:
  assumes "lastTempSampleMs st = millisAt t0" "\<forall>t \<in> set ts. t0 \<le> t" "sorted ts"
  shows "\<forall>e \<in> set (pollSample b ts st). t0 + 250 \<le> e"
  using assms
proof (induction ts arbitrary: st t0)
  case Nil
  then show ?case by simp
next
  case (Cons t ts)
  let ?st' = "taskSampleTemperature b (millisAt t) st"
  have t0t: "t0 \<le> t" using Cons.prems(2) by simp
  have later: "\<forall>u \<in> set ts. t \<le> u" using Cons.prems(3) by simp
  have srt: "sorted ts" using Cons.prems(3) by simp
  show ?case
  proof (cases "reads (hardware ?st') \<noteq> reads (hardware st)")
    case True
    then have "250 \<le> unat (millisAt t - millisAt t0)"
      using sample_executes_iff [of b "millisAt t" st] Cons.prems(1) by simp
    then have gap: "t0 + 250 \<le> t" using millisAt_elapsed_le [OF t0t] by linarith
    have "\<not> (millisAt t - lastTempSampleMs st < TEMP_SAMPLE_MS)"
      using True sample_executes_iff [of b "millisAt t" st] sample_due_nat [of "millisAt t" st] by simp
    then have "lastTempSampleMs ?st' = millisAt t"
      using taskSampleTemperature_run [of "millisAt t" st b] by simp
    from Cons.IH [OF this later srt] have "\<forall>e \<in> set (pollSample b ts ?st'). t + 250 \<le> e" .
    then show ?thesis using True gap by (auto simp add: Let_def)
  next
    case False
    then have "250 > unat (millisAt t - lastTempSampleMs st)"
      using sample_executes_iff [of b "millisAt t" st] by simp
    then have "?st' = st"
      using sample_due_nat [of "millisAt t" st] taskSampleTemperature_skip [of "millisAt t" st b]
      by auto
    moreover have "\<forall>u \<in> set ts. t0 \<le> u" using Cons.prems(2) by simp
    ultimately show ?thesis
      using Cons.IH [OF Cons.prems(1) _ srt, of ] False by (simp add: Let_def)
  qed
qed

lemma pollSample_spaced:
  assumes "sorted ts"
  shows "sorted_wrt (\<lambda>e1 e2. e1 + 250 \<le> e2) (pollSample b ts st)"
  using assms
proof (induction ts arbitrary: st)
  case Nil
  then show ?case by simp
next
  case (Cons t ts)
  let ?st' = "taskSampleTemperature b (millisAt t) st"
  have later: "\<forall>u \<in> set ts. t \<le> u" using Cons.prems by simp
  have srt: "sorted ts" using Cons.prems by simp
  note ih = Cons.IH [OF srt, of ?st']
  show ?case
  proof (cases "reads (hardware ?st') \<noteq> reads (hardware st)")
    case True
    then have "\<not> (millisAt t - lastTempSampleMs st < TEMP_SAMPLE_MS)"
      using sample_executes_iff [of b "millisAt t" st] sample_due_nat [of "millisAt t" st] by simp
    then have "lastTempSampleMs ?st' = millisAt t"
      using taskSampleTemperature_run [of "millisAt t" st b] by simp
    from pollSample_after [OF this later srt]
    have "\<forall>e \<in> set (pollSample b ts ?st'). t + 250 \<le> e" .
    then show ?thesis using True ih by (simp add: Let_def)
  next
    case False
    then show ?thesis using ih by (simp add: Let_def)
  qed
qed

lemma taskSampleTemperature_last:
  "lastTempSampleMs (taskSampleTemperature b now st) =
     (if now - lastTempSampleMs st < TEMP_SAMPLE_MS then lastTempSampleMs st else now)"
  using taskSampleTemperature_run [of now st b]
  by (simp add: taskSampleTemperature_skip)

lemma taskUpdateControl_skip:
  "now - lastControlMs st < CONTROL_UPDATE_MS \<Longrightarrow> taskUpdateControl b now st = Some st"
  by (simp add: taskUpdateControl_def)

lemma taskUpdateControl_run:
  assumes "\<not> (now - lastControlMs st < CONTROL_UPDATE_MS)"
  shows "\<exists>st'. taskUpdateControl b now st = Some st' \<and> lastControlMs st' = now
           \<and> length (writes (hardware st')) = length (writes (hardware st)) + 1"
proof -
  obtain s st2 where rd: "readSetpointF b (st\<lparr>lastControlMs := now\<rparr>) = Some (s, st2)"
    using readSetpointF_returns by blast
  show ?thesis
    using taskUpdateControl_due [OF assms rd] readSetpointF_frame [OF rd]
    by (simp add: digitalWrite_def)
qed

lemma updateLEDs_skip:
  "now - lastUpdate L < updateIntervalMs L \<Longrightarrow> updateLEDs now (L, h) = (L, h)"
  by (simp add: updateLEDs_def)

lemma updateLEDs_run:
  "\<not> (now - lastUpdate L < updateIntervalMs L) \<Longrightarrow> lastUpdate (fst (updateLEDs now (L, h))) = now"
  by (simp add: updateLEDs_def Let_def case_prod_beta)

lemma pollSample_Cons:
  "pollSample b (t # ts) st =
     (if 250 \<le> unat (millisAt t - lastTempSampleMs st)
      then t # pollSample b ts (taskSampleTemperature b (millisAt t) st)
      else pollSample b ts st)"
proof (cases "250 \<le> unat (millisAt t - lastTempSampleMs st)")
  case True
  then show ?thesis using sample_executes_iff [of b "millisAt t" st] by (simp add: Let_def)
next
  case False
  then have "taskSampleTemperature b (millisAt t) st = st"
    using sample_due_nat [of "millisAt t" st] taskSampleTemperature_skip [of "millisAt t" st b]
    by auto
  then show ?thesis using False by (simp add: Let_def)
qed

lemma pollSample_demo:
  "pollSample demoBoard [0, 100, 250, 300, 499, 500, 749, 751] (initState demoBoard demoHw)
     = [250, 500, 751]"
proof -
  have l0: "lastTempSampleMs (initState demoBoard demoHw) = 0" by (simp add: initState_def)
  show ?thesis
    by (simp add: pollSample_Cons taskSampleTemperature_last l0 millisAt_def TEMP_SAMPLE_MS_def
          del: pollSample.simps(2))
qed

lemma setDisplayState_frame:
  "lastUpdate (setDisplayState tempF sp L) = lastUpdate L
 \<and> updateIntervalMs (setDisplayState tempF sp L) = updateIntervalMs L
 \<and> lastRegion (setDisplayState tempF sp L) = lastRegion L
 \<and> abovePin (setDisplayState tempF sp L) = abovePin L
 \<and> inBandPin (setDisplayState tempF sp L) = inBandPin L
 \<and> belowPin (setDisplayState tempF sp L) = belowPin L
 \<and> hysteresisF (setDisplayState tempF sp L) = hysteresisF L"
  by (simp add: setDisplayState_def Let_def)

lemma updateLEDs_state:
  "fst (updateLEDs now (L, h)) =
     (if now - lastUpdate L < updateIntervalMs L then L
      else if region L = lastRegion L then L\<lparr>lastUpdate := now\<rparr>
      else L\<lparr>lastUpdate := now, lastRegion := region L\<rparr>)"
  by (simp add: updateLEDs_def Let_def case_prod_beta)

lemma pollLeds_Cons:
  "pollLeds ((t, tempF, sp) # cs) L h =
     (let L1 = setDisplayState tempF sp L in
      if millisAt t - lastUpdate L < updateIntervalMs L then pollLeds cs L1 h
      else if region L1 = lastRegion L then pollLeds cs (L1\<lparr>lastUpdate := millisAt t\<rparr>) h
      else (t, region L1) #
             pollLeds cs (L1\<lparr>lastUpdate := millisAt t, lastRegion := region L1\<rparr>)
               (snd (updateLEDs (millisAt t) (L1, h))))"
proof -
  let ?L1 = "setDisplayState tempF sp L"
  note fr = setDisplayState_frame [of tempF sp L]
  have w: "writes (snd (updateLEDs (millisAt t) (?L1, h))) \<noteq> writes h \<longleftrightarrow>
      \<not> (millisAt t - lastUpdate L < updateIntervalMs L) \<and> region ?L1 \<noteq> lastRegion L"
    using fr by (simp add: updateLEDs_writes)
  have h: "millisAt t - lastUpdate L < updateIntervalMs L \<or> region ?L1 = lastRegion L \<Longrightarrow>
      snd (updateLEDs (millisAt t) (?L1, h)) = h"
    using fr by (auto simp add: updateLEDs_def Let_def)
  show ?thesis
    using w h fr updateLEDs_state [of "millisAt t" ?L1 h]
    by (auto simp add: Let_def case_prod_beta)
qed

declare pollLeds.simps(2) [simp del]

lemma pollLeds_after:
  assumes "lastUpdate L = millisAt t0" "\<forall>c \<in> set cs. t0 \<le> fst c" "sorted (map fst cs)"
  shows "\<forall>w \<in> set (pollLeds cs L h). t0 + unat (updateIntervalMs L) \<le> fst w"
  using assms
proof (induction cs arbitrary: L h t0)
  case Nil
  then show ?case by simp
next
  case (Cons c cs)
  obtain t tempF sp where c: "c = (t, tempF, sp)" by (cases c)
  let ?L1 = "setDisplayState tempF sp L"
  note fr = setDisplayState_frame [of tempF sp L]
  have t0t: "t0 \<le> t" using Cons.prems(2) c by simp
  have later: "\<forall>d \<in> set cs. t \<le> fst d" using Cons.prems(3) c by simp
  have later0: "\<forall>d \<in> set cs. t0 \<le> fst d" using Cons.prems(2) by simp
  have srt: "sorted (map fst cs)" using Cons.prems(3) by simp
  show ?case
  proof (cases "millisAt t - lastUpdate L < updateIntervalMs L")
    case True
    have "lastUpdate ?L1 = millisAt t0" using fr Cons.prems(1) by simp
    from Cons.IH [OF this later0 srt, of h] fr True show ?thesis
      by (simp add: c pollLeds_Cons Let_def)
  next
    case False
    then have "unat (updateIntervalMs L) \<le> unat (millisAt t - millisAt t0)"
      using Cons.prems(1) by (simp add: word_less_nat_alt)
    then have gap: "t0 + unat (updateIntervalMs L) \<le> t"
      using millisAt_elapsed_le [OF t0t] t0t by linarith
    have a: "\<forall>w \<in> set (pollLeds cs (?L1\<lparr>lastUpdate := millisAt t\<rparr>) h').
               t0 + unat (updateIntervalMs L) \<le> fst w" for h'
      using Cons.IH [of "?L1\<lparr>lastUpdate := millisAt t\<rparr>" t h', OF _ later srt] fr gap
      by fastforce
    have b: "\<forall>w \<in> set (pollLeds cs (?L1\<lparr>lastUpdate := millisAt t, lastRegion := region ?L1\<rparr>) h').
               t0 + unat (updateIntervalMs L) \<le> fst w" for h'
      using Cons.IH [of "?L1\<lparr>lastUpdate := millisAt t, lastRegion := region ?L1\<rparr>" t h',
          OF _ later srt] fr gap
      by fastforce
    show ?thesis using False a b gap by (simp add: c pollLeds_Cons Let_def)
  qed
qed

lemma pollLeds_spaced:
  assumes "sorted (map fst cs)"
  shows "sorted_wrt (\<lambda>w1 w2. fst w1 + unat (updateIntervalMs L) \<le> fst w2) (pollLeds cs L h)"
  using assms
proof (induction cs arbitrary: L h)
  case Nil
  then show ?case by simp
next
  case (Cons c cs)
  obtain t tempF sp where c: "c = (t, tempF, sp)" by (cases c)
  let ?L1 = "setDisplayState tempF sp L"
  let ?L3 = "?L1\<lparr>lastUpdate := millisAt t, lastRegion := region ?L1\<rparr>"
  note fr = setDisplayState_frame [of tempF sp L]
  have later: "\<forall>d \<in> set cs. t \<le> fst d" using Cons.prems c by simp
  have srt: "sorted (map fst cs)" using Cons.prems by simp
  have i1: "sorted_wrt (\<lambda>w1 w2. fst w1 + unat (updateIntervalMs L) \<le> fst w2) (pollLeds cs ?L1 h)"
    using Cons.IH [OF srt, of ?L1 h] fr by simp
  have i2: "sorted_wrt (\<lambda>w1 w2. fst w1 + unat (updateIntervalMs L) \<le> fst w2)
              (pollLeds cs (?L1\<lparr>lastUpdate := millisAt t\<rparr>) h)"
    using Cons.IH [OF srt, of "?L1\<lparr>lastUpdate := millisAt t\<rparr>" h] fr by simp
  have i3: "sorted_wrt (\<lambda>w1 w2. fst w1 + unat (updateIntervalMs L) \<le> fst w2) (pollLeds cs ?L3 h')" for h'
    using Cons.IH [OF srt, of ?L3 h'] fr by simp
  have a: "\<forall>w \<in> set (pollLeds cs ?L3 h'). t + unat (updateIntervalMs L) \<le> fst w" for h'
    using pollLeds_after [of ?L3 t cs h', OF _ later srt] fr by simp
  show ?case using i1 i2 i3 a by (simp add: c pollLeds_Cons Let_def)
qed

lemma pollLeds_regions:
  "distinct_adj (lastRegion L # map snd (pollLeds cs L h))"
proof (induction cs arbitrary: L h)
  case Nil
  then show ?case by simp
next
  case (Cons c cs)
  obtain t tempF sp where c: "c = (t, tempF, sp)" by (cases c)
  let ?L1 = "setDisplayState tempF sp L"
  let ?L3 = "?L1\<lparr>lastUpdate := millisAt t, lastRegion := region ?L1\<rparr>"
  note fr = setDisplayState_frame [of tempF sp L]
  have i1: "distinct_adj (lastRegion L # map snd (pollLeds cs ?L1 h))"
    using Cons.IH [of ?L1 h] fr by simp
  have i2: "distinct_adj (lastRegion L # map snd (pollLeds cs (?L1\<lparr>lastUpdate := millisAt t\<rparr>) h))"
    using Cons.IH [of "?L1\<lparr>lastUpdate := millisAt t\<rparr>" h] fr by simp
  have i3: "distinct_adj (region ?L1 # map snd (pollLeds cs ?L3 h'))" for h'
    using Cons.IH [of ?L3 h'] by simp
  show ?case using i1 i2 i3 by (simp add: c pollLeds_Cons Let_def)
qed

lemma updateLEDs_write_only_when:
  assumes "writes (snd (updateLEDs now (L, h))) \<noteq> writes h"
  shows "\<not> (now - lastUpdate L < updateIntervalMs L) \<and> region L \<noteq> lastRegion L
       \<and> lastUpdate (fst (updateLEDs now (L, h))) = now
       \<and> lastRegion (fst (updateLEDs now (L, h))) = region L"
  using assms by (auto simp add: updateLEDs_writes updateLEDs_state split: if_splits)

lemma pollLeds_scenario:
  "map (\<lambda>(t, tempF, sp). region (setDisplayState tempF sp demoLeds))
       [(0 :: nat, 70, 72), (50, 70, 72), (250, 71.5, 72)] = [Below, Below, InBandBelow]
 \<and> pollLeds [(0, 70, 72), (50, 70, 72), (250, 71.5, 72)] demoLeds demoHw = [(250, InBandBelow)]"
  by (simp add: pollLeds_Cons Let_def setDisplayState_def demoLeds_def StatusLeds_new_def
        HYST_F_def LED_UPDATE_MS_def millisAt_def)

lemma pollLeds_demo:
  "pollLeds [(0, 70, 72), (250, 70, 72), (300, 71.5, 72), (450, 71.5, 72), (500, 73, 72)]
     demoLeds demoHw = [(250, Below), (450, InBandBelow)]"
  by (simp add: pollLeds_Cons Let_def setDisplayState_def demoLeds_def StatusLeds_new_def
        HYST_F_def LED_UPDATE_MS_def millisAt_def)


section \<open>Heater controller\<close>

text \<open>
  C1. In a control tick that is due, with \<open>s\<close> the setpoint \<open>readSetpointF\<close>
  returns and \<open>t\<close> the filtered temperature: \<open>t \<le> s - HYST_F/2\<close> turns the
  heater on, \<open>t \<ge> s + HYST_F/2\<close> turns it off, strictly in between it keeps its
  state; in every case one \<open>digitalWrite\<close> of the new heater state to the SSR pin
  is appended, and the pin is left at that level.
\<close>

theorem taskUpdateControl_hysteresis:
  assumes "\<not> (now - lastControlMs st < CONTROL_UPDATE_MS)"
  shows "\<exists>s st2 st'.
       readSetpointF b (st\<lparr>lastControlMs := now\<rparr>) = Some (s, st2)
     \<and> taskUpdateControl b now st = Some st'
     \<and> (filteredTempF st \<le> s - HYST_F / 2 \<longrightarrow> heaterOn st')
     \<and> (filteredTempF st \<ge> s + HYST_F / 2 \<longrightarrow> \<not> heaterOn st')
     \<and> (s - HYST_F / 2 < filteredTempF st \<and> filteredTempF st < s + HYST_F / 2 \<longrightarrow>
          heaterOn st' = heaterOn st)
     \<and> writes (hardware st') = writes (hardware st) @ [(SSR_PIN b, heaterOn st')]
     \<and> pinLevel (hardware st') (SSR_PIN b) = heaterOn st'"
proof -
  obtain s st2 where rd: "readSetpointF b (st\<lparr>lastControlMs := now\<rparr>) = Some (s, st2)"
    using readSetpointF_returns by blast
  have h: "0 < HYST_F" by (simp add: HYST_F_def)
  show ?thesis
    using taskUpdateControl_due [OF assms rd] readSetpointF_frame [OF rd] rd h
    by (auto simp add: digitalWrite_def)
qed

theorem taskUpdateControl_hysteresis_witness:
  "(\<exists>st'. taskUpdateControl demoBoard 1000 demoCold = Some st' \<and> heaterOn st' \<and> \<not> heaterOn demoCold
        \<and> writes (hardware st') = [(10, True)] \<and> pinLevel (hardware st') 10)
 \<and> (\<exists>st'. taskUpdateControl demoBoard 1000 demoHot = Some st' \<and> \<not> heaterOn st' \<and> heaterOn demoHot
        \<and> writes (hardware st') = [(10, False)] \<and> \<not> pinLevel (hardware st') 10)
 \<and> (\<exists>st'. taskUpdateControl demoBoard 1000 demoHold = Some st' \<and> heaterOn st' \<and> heaterOn demoHold
        \<and> writes (hardware st') = [(10, True)] \<and> pinLevel (hardware st') 10)"
proof -
  have due: "\<not> (1000 - lastControlMs demoCold < CONTROL_UPDATE_MS)"
       "\<not> (1000 - lastControlMs demoHot < CONTROL_UPDATE_MS)"
       "\<not> (1000 - lastControlMs demoHold < CONTROL_UPDATE_MS)"
    by (simp_all add: demoCold_def demoHot_def demoHold_def initState_def CONTROL_UPDATE_MS_def)
  have hwd: "hardware (demoCold\<lparr>lastControlMs := 1000\<rparr>) = demoHw"
       "hardware (demoHot\<lparr>lastControlMs := 1000\<rparr>) = demoHw"
       "hardware (demoHold\<lparr>lastControlMs := 1000\<rparr>) = demoHw"
    by (simp_all add: demoCold_def demoHot_def demoHold_def initState_def)
  have w0: "writes (hardware demoCold) = []" "writes (hardware demoHot) = []"
       "writes (hardware demoHold) = []" "SSR_PIN demoBoard = 10"
    by (simp_all add: demoCold_def demoHot_def demoHold_def initState_def demoHw_def
          SSR_PIN_def demoBoard_def)
  have cold: "\<exists>st'. taskUpdateControl demoBoard 1000 demoCold = Some st' \<and> heaterOn st'
        \<and> \<not> heaterOn demoCold \<and> writes (hardware st') = [(10, True)] \<and> pinLevel (hardware st') 10"
  proof -
    from taskUpdateControl_hysteresis [OF due(1), of demoBoard]
    obtain s st2 st' where rd: "readSetpointF demoBoard (demoCold\<lparr>lastControlMs := 1000\<rparr>) = Some (s, st2)"
      and tk: "taskUpdateControl demoBoard 1000 demoCold = Some st'"
      and on: "filteredTempF demoCold \<le> s - HYST_F / 2 \<longrightarrow> heaterOn st'"
      and wr: "writes (hardware st') = writes (hardware demoCold) @ [(SSR_PIN demoBoard, heaterOn st')]"
      and pl: "pinLevel (hardware st') (SSR_PIN demoBoard) = heaterOn st'"
      by blast
    have s: "s = 50" using rd demo_readSetpointF [OF hwd(1)] by simp
    have h: "heaterOn st'" using on s by (simp add: demoCold_def initState_def HYST_F_def)
    have "\<not> heaterOn demoCold" by (simp add: demoCold_def initState_def)
    then show ?thesis using tk h wr pl w0 by simp
  qed
  have hot: "\<exists>st'. taskUpdateControl demoBoard 1000 demoHot = Some st' \<and> \<not> heaterOn st'
        \<and> heaterOn demoHot \<and> writes (hardware st') = [(10, False)] \<and> \<not> pinLevel (hardware st') 10"
  proof -
    from taskUpdateControl_hysteresis [OF due(2), of demoBoard]
    obtain s st2 st' where rd: "readSetpointF demoBoard (demoHot\<lparr>lastControlMs := 1000\<rparr>) = Some (s, st2)"
      and tk: "taskUpdateControl demoBoard 1000 demoHot = Some st'"
      and off: "filteredTempF demoHot \<ge> s + HYST_F / 2 \<longrightarrow> \<not> heaterOn st'"
      and wr: "writes (hardware st') = writes (hardware demoHot) @ [(SSR_PIN demoBoard, heaterOn st')]"
      and pl: "pinLevel (hardware st') (SSR_PIN demoBoard) = heaterOn st'"
      by blast
    have s: "s = 50" using rd demo_readSetpointF [OF hwd(2)] by simp
    have h: "\<not> heaterOn st'" using off s by (simp add: demoHot_def initState_def HYST_F_def)
    have "heaterOn demoHot" by (simp add: demoHot_def initState_def)
    then show ?thesis using tk h wr pl w0 by simp
  qed
  have hold: "\<exists>st'. taskUpdateControl demoBoard 1000 demoHold = Some st' \<and> heaterOn st'
        \<and> heaterOn demoHold \<and> writes (hardware st') = [(10, True)] \<and> pinLevel (hardware st') 10"
  proof -
    from taskUpdateControl_hysteresis [OF due(3), of demoBoard]
    obtain s st2 st' where rd: "readSetpointF demoBoard (demoHold\<lparr>lastControlMs := 1000\<rparr>) = Some (s, st2)"
      and tk: "taskUpdateControl demoBoard 1000 demoHold = Some st'"
      and keep: "s - HYST_F / 2 < filteredTempF demoHold \<and> filteredTempF demoHold < s + HYST_F / 2 \<longrightarrow>
                  heaterOn st' = heaterOn demoHold"
      and wr: "writes (hardware st') = writes (hardware demoHold) @ [(SSR_PIN demoBoard, heaterOn st')]"
      and pl: "pinLevel (hardware st') (SSR_PIN demoBoard) = heaterOn st'"
      by blast
    have s: "s = 50" using rd demo_readSetpointF [OF hwd(3)] by simp
    have d: "heaterOn demoHold" by (simp add: demoHold_def initState_def)
    have h: "heaterOn st'" using keep s d by (simp add: demoHold_def initState_def HYST_F_def)
    show ?thesis using tk h d wr pl w0 by simp
  qed
  show ?thesis using cold hot hold by blast
qed

section \<open>Scheduler\<close>

text \<open>
  C2. A task runs its body in a call exactly when \<open>now - lastRunTimestamp\<close>, taken
  in 32-bit unsigned arithmetic, is at least its interval, and then stores \<open>now\<close>
  as the last run; otherwise the call changes nothing. For the sampling task the body
  is seen by its eight conversions; the difference is the elapsed time \<open>d\<close> for any
  \<open>d\<close> below \<open>2^32\<close>, also when the counter wraps in between. Polled at any
  non-decreasing sequence of times, two runs of the sampling task are at least 250 ms
  apart. The control task and \<open>updateLEDs\<close> have the same gate.
\<close>

theorem scheduler_gate:
  "(now - lastTempSampleMs st < TEMP_SAMPLE_MS \<longrightarrow> taskSampleTemperature b now st = st)
 \<and> (\<not> (now - lastTempSampleMs st < TEMP_SAMPLE_MS) \<longrightarrow>
      lastTempSampleMs (taskSampleTemperature b now st) = now
    \<and> reads (hardware (taskSampleTemperature b now st)) = reads (hardware st) + 8
    \<and> filteredTempF (taskSampleTemperature b now st) =
         filteredTempF st * (1 - TEMP_ALPHA)
           + (fst (readTemperatureC b (hardware st)) * 9 / 5 + 32) * TEMP_ALPHA)
 \<and> ((reads (hardware (taskSampleTemperature b now st)) \<noteq> reads (hardware st))
       = (250 \<le> unat (now - lastTempSampleMs st)))
 \<and> (d < 2 ^ 32 \<longrightarrow>
      unat ((lastTempSampleMs st + word_of_nat d) - lastTempSampleMs st) = d
    \<and> ((reads (hardware (taskSampleTemperature b (lastTempSampleMs st + word_of_nat d) st))
           \<noteq> reads (hardware st)) = (250 \<le> d)))
 \<and> (sorted ts \<longrightarrow> sorted_wrt (\<lambda>e1 e2. e1 + 250 \<le> e2) (pollSample b ts st))
 \<and> (now - lastControlMs st < CONTROL_UPDATE_MS \<longrightarrow> taskUpdateControl b now st = Some st)
 \<and> (\<not> (now - lastControlMs st < CONTROL_UPDATE_MS) \<longrightarrow>
      (\<exists>st'. taskUpdateControl b now st = Some st' \<and> lastControlMs st' = now
         \<and> length (writes (hardware st')) = length (writes (hardware st)) + 1))
 \<and> (now - lastUpdate L < updateIntervalMs L \<longrightarrow> updateLEDs now (L, h) = (L, h))
 \<and> (\<not> (now - lastUpdate L < updateIntervalMs L) \<longrightarrow>
      lastUpdate (fst (updateLEDs now (L, h))) = now)"
proof -
  have w: "d < 2 ^ 32 \<longrightarrow>
      unat ((lastTempSampleMs st + word_of_nat d) - lastTempSampleMs st) = d
    \<and> ((reads (hardware (taskSampleTemperature b (lastTempSampleMs st + word_of_nat d) st))
           \<noteq> reads (hardware st)) = (250 \<le> d))"
    using wrap_difference [of d "lastTempSampleMs st"]
      sample_executes_iff [of b "lastTempSampleMs st + word_of_nat d" st]
    by simp
  show ?thesis
    using w taskSampleTemperature_skip [of now st b] taskSampleTemperature_run [of now st b]
      sample_executes_iff [of b now st] pollSample_spaced [of ts b st]
      taskUpdateControl_skip [of now st b] taskUpdateControl_run [of now st b]
      updateLEDs_skip [of now L h] updateLEDs_run [of now L h]
    by blast
qed

theorem scheduler_gate_witness:
  "(100 :: 32 word) - lastTempSampleMs (initState demoBoard demoHw) < TEMP_SAMPLE_MS
 \<and> taskSampleTemperature demoBoard 100 (initState demoBoard demoHw) = initState demoBoard demoHw
 \<and> \<not> ((250 :: 32 word) - lastTempSampleMs (initState demoBoard demoHw) < TEMP_SAMPLE_MS)
 \<and> lastTempSampleMs (taskSampleTemperature demoBoard 250 (initState demoBoard demoHw)) = 250
 \<and> reads (hardware (taskSampleTemperature demoBoard 250 (initState demoBoard demoHw))) = 8
 \<and> (300 :: nat) < 2 ^ 32
 \<and> lastTempSampleMs demoWrap + word_of_nat 300 = 44
 \<and> unat (44 - lastTempSampleMs demoWrap) = 300
 \<and> reads (hardware (taskSampleTemperature demoBoard 44 demoWrap)) \<noteq> reads (hardware demoWrap)
 \<and> sorted [0, 100, 250, 300, 499, 500, 749, 751 :: nat]
 \<and> pollSample demoBoard [0, 100, 250, 300, 499, 500, 749, 751] (initState demoBoard demoHw)
       = [250, 500, 751]
 \<and> sorted_wrt (\<lambda>e1 e2. e1 + 250 \<le> e2) [250, 500, 751 :: nat]
 \<and> (100 :: 32 word) - lastControlMs (initState demoBoard demoHw) < CONTROL_UPDATE_MS
 \<and> taskUpdateControl demoBoard 100 (initState demoBoard demoHw) = Some (initState demoBoard demoHw)
 \<and> \<not> ((1000 :: 32 word) - lastControlMs (initState demoBoard demoHw) < CONTROL_UPDATE_MS)
 \<and> (\<exists>st'. taskUpdateControl demoBoard 1000 (initState demoBoard demoHw) = Some st'
        \<and> lastControlMs st' = 1000 \<and> length (writes (hardware st')) = 1)
 \<and> (50 :: 32 word) - lastUpdate demoLeds < updateIntervalMs demoLeds
 \<and> updateLEDs 50 (demoLeds, demoHw) = (demoLeds, demoHw)
 \<and> \<not> ((250 :: 32 word) - lastUpdate demoLeds < updateIntervalMs demoLeds)
 \<and> lastUpdate (fst (updateLEDs 250 (demoLeds, demoHw))) = 250"
proof -
  let ?i = "initState demoBoard demoHw"
  have l0: "lastTempSampleMs ?i = 0" "lastControlMs ?i = 0" "reads (hardware ?i) = 0"
    "writes (hardware ?i) = []"
    by (simp_all add: initState_def demoHw_def)
  have g: "(100 :: 32 word) - lastTempSampleMs ?i < TEMP_SAMPLE_MS"
    "\<not> ((250 :: 32 word) - lastTempSampleMs ?i < TEMP_SAMPLE_MS)"
    "(100 :: 32 word) - lastControlMs ?i < CONTROL_UPDATE_MS"
    "\<not> ((1000 :: 32 word) - lastControlMs ?i < CONTROL_UPDATE_MS)"
    "(50 :: 32 word) - lastUpdate demoLeds < updateIntervalMs demoLeds"
    "\<not> ((250 :: 32 word) - lastUpdate demoLeds < updateIntervalMs demoLeds)"
    by (simp_all add: l0 TEMP_SAMPLE_MS_def CONTROL_UPDATE_MS_def demoLeds_def StatusLeds_new_def
          LED_UPDATE_MS_def)
  have d: "(300 :: nat) < 2 ^ 32" by simp
  have wl: "lastTempSampleMs demoWrap + word_of_nat 300 = 44"
    by (simp add: demoWrap_def)
  have srt: "sorted [0, 100, 250, 300, 499, 500, 749, 751 :: nat]" by simp
  have a: "taskSampleTemperature demoBoard 100 ?i = ?i"
    using scheduler_gate [of 100 ?i demoBoard] g by blast
  have b: "lastTempSampleMs (taskSampleTemperature demoBoard 250 ?i) = 250
      \<and> reads (hardware (taskSampleTemperature demoBoard 250 ?i)) = 8"
    using scheduler_gate [of 250 ?i demoBoard] g l0 by simp
  have c: "unat (44 - lastTempSampleMs demoWrap) = 300
      \<and> reads (hardware (taskSampleTemperature demoBoard 44 demoWrap)) \<noteq> reads (hardware demoWrap)"
  proof -
    have "unat ((lastTempSampleMs demoWrap + word_of_nat 300) - lastTempSampleMs demoWrap) = 300
      \<and> ((reads (hardware (taskSampleTemperature demoBoard
                (lastTempSampleMs demoWrap + word_of_nat 300) demoWrap))
           \<noteq> reads (hardware demoWrap)) = (250 \<le> (300 :: nat)))"
      using scheduler_gate [of _ demoWrap demoBoard 300] d by blast
    then show ?thesis unfolding wl by simp
  qed
  have e: "sorted_wrt (\<lambda>e1 e2. e1 + 250 \<le> e2) [250, 500, 751 :: nat]"
    using scheduler_gate [of _ ?i demoBoard _ "[0, 100, 250, 300, 499, 500, 749, 751]"] srt
    by (simp only: pollSample_demo)
  have f: "taskUpdateControl demoBoard 100 ?i = Some ?i"
    using scheduler_gate [of 100 ?i demoBoard] g by blast
  have h: "\<exists>st'. taskUpdateControl demoBoard 1000 ?i = Some st'
        \<and> lastControlMs st' = 1000 \<and> length (writes (hardware st')) = 1"
    using scheduler_gate [of 1000 ?i demoBoard] g l0 by simp
  have i: "updateLEDs 50 (demoLeds, demoHw) = (demoLeds, demoHw)"
    using scheduler_gate [of 50 _ _ _ _ demoLeds demoHw] g by blast
  have j: "lastUpdate (fst (updateLEDs 250 (demoLeds, demoHw))) = 250"
    using scheduler_gate [of 250 _ _ _ _ demoLeds demoHw] g by blast
  show ?thesis using g d wl srt a b c e f h i j pollSample_demo by simp
qed

section \<open>Main loop\<close>

text \<open>
  C5. \<open>readSetpointF\<close> stores its result in the global \<open>setPointF\<close> only in the
  upper branch: for a dial sample above \<open>MID_RAW\<close> it returns the value mapped from
  that sample and the state it leaves has this value in \<open>setPointF\<close> (one conversion
  counted, nothing else changed); for a dial sample up to \<open>MID_RAW\<close> it returns the
  mapped value and leaves \<open>setPointF\<close> as it was. In a loop iteration whose control tick is due with
  such a sample, the heater is decided with the returned setpoint while
  \<open>setDisplayState\<close> is given the old \<open>setPointF\<close>; in the example the heater uses
  50 and the display uses 72, and the region shown (InBandBelow) is not the one of the
  heater's setpoint (Above).
\<close>

theorem readSetpointF_stale_setPointF:
  "(potRaw b st \<le> MID_RAW \<longrightarrow>
      (\<exists>st'. readSetpointF b st =
                Some (MIN_SET_F + (MID_SET_F - MIN_SET_F) * (potRaw b st / MID_RAW), st')
            \<and> setPointF st' = setPointF st))
 \<and> (\<not> potRaw b st \<le> MID_RAW \<longrightarrow>
      readSetpointF b st =
        Some (MID_SET_F + (MAX_SET_F - MID_SET_F) * ((potRaw b st - MID_RAW) / (1023 - MID_RAW)),
              st\<lparr>hardware := (hardware st)\<lparr>reads := reads (hardware st) + 1\<rparr>,
                 setPointF := MID_SET_F
                   + (MAX_SET_F - MID_SET_F) * ((potRaw b st - MID_RAW) / (1023 - MID_RAW))\<rparr>))
 \<and> (\<not> (now - lastControlMs st < CONTROL_UPDATE_MS)
      \<and> potRaw b (taskSampleTemperature b now st) \<le> MID_RAW \<longrightarrow>
      (\<exists>s st2 st'.
          readSetpointF b ((taskSampleTemperature b now st)\<lparr>lastControlMs := now\<rparr>) = Some (s, st2)
        \<and> loop b now st = Some st'
        \<and> heaterOn st' = (if filteredTempF st' \<le> s - HYST_F * 0.5 then True
                           else if filteredTempF st' \<ge> s + HYST_F * 0.5 then False
                           else heaterOn st)
        \<and> setPointF st' = setPointF st
        \<and> region (statusLeds st') =
             region (setDisplayState (filteredTempF st') (setPointF st) (statusLeds st))))
 \<and> (\<exists>s st2 st'.
        readSetpointF demoBoard
          ((taskSampleTemperature demoBoard 1000 demoStale)\<lparr>lastControlMs := 1000\<rparr>) = Some (s, st2)
      \<and> loop demoBoard 1000 demoStale = Some st'
      \<and> s = 50 \<and> filteredTempF st' = 72 \<and> setPointF st' = 72 \<and> \<not> heaterOn st'
      \<and> region (statusLeds st') = InBandBelow
      \<and> region (setDisplayState (filteredTempF st') s (statusLeds demoStale)) = Above)"
proof -
  have lo: "potRaw b st \<le> MID_RAW \<longrightarrow>
      (\<exists>st'. readSetpointF b st =
                Some (MIN_SET_F + (MID_SET_F - MIN_SET_F) * (potRaw b st / MID_RAW), st')
            \<and> setPointF st' = setPointF st)"
    by (simp add: readSetpointF_lower)
  have hi: "\<not> potRaw b st \<le> MID_RAW \<longrightarrow>
      readSetpointF b st =
        Some (MID_SET_F + (MAX_SET_F - MID_SET_F) * ((potRaw b st - MID_RAW) / (1023 - MID_RAW)),
              st\<lparr>hardware := (hardware st)\<lparr>reads := reads (hardware st) + 1\<rparr>,
                 setPointF := MID_SET_F
                   + (MAX_SET_F - MID_SET_F) * ((potRaw b st - MID_RAW) / (1023 - MID_RAW))\<rparr>)"
    using readSetpointF_upper [of b st] by blast
  have lp: "\<not> (now - lastControlMs st < CONTROL_UPDATE_MS)
      \<and> potRaw b (taskSampleTemperature b now st) \<le> MID_RAW \<longrightarrow>
      (\<exists>s st2 st'.
          readSetpointF b ((taskSampleTemperature b now st)\<lparr>lastControlMs := now\<rparr>) = Some (s, st2)
        \<and> loop b now st = Some st'
        \<and> heaterOn st' = (if filteredTempF st' \<le> s - HYST_F * 0.5 then True
                           else if filteredTempF st' \<ge> s + HYST_F * 0.5 then False
                           else heaterOn st)
        \<and> setPointF st' = setPointF st
        \<and> region (statusLeds st') =
             region (setDisplayState (filteredTempF st') (setPointF st) (statusLeds st)))"
  proof
    let ?st1 = "(taskSampleTemperature b now st)\<lparr>lastControlMs := now\<rparr>"
    assume a: "\<not> (now - lastControlMs st < CONTROL_UPDATE_MS)
      \<and> potRaw b (taskSampleTemperature b now st) \<le> MID_RAW"
    then have p: "potRaw b ?st1 \<le> MID_RAW" by (simp add: potRaw_lastControlMs)
    note rd = readSetpointF_lower [OF p]
    from loop_due [OF conjunct1 [OF a] rd]
    obtain st' where l: "loop b now st = Some st'"
      and sp: "setPointF st' = setPointF (?st1\<lparr>hardware := (hardware ?st1)\<lparr>reads := reads (hardware ?st1) + 1\<rparr>\<rparr>)"
      and ht: "heaterOn st' =
          (if filteredTempF st' \<le> MIN_SET_F + (MID_SET_F - MIN_SET_F) * (potRaw b ?st1 / MID_RAW) - HYST_F * 0.5
           then True
           else if filteredTempF st' \<ge> MIN_SET_F + (MID_SET_F - MIN_SET_F) * (potRaw b ?st1 / MID_RAW) + HYST_F * 0.5
           then False else heaterOn st)"
      and rg: "region (statusLeds st') = region (setDisplayState (filteredTempF st')
           (setPointF (?st1\<lparr>hardware := (hardware ?st1)\<lparr>reads := reads (hardware ?st1) + 1\<rparr>\<rparr>))
           (statusLeds st))"
      by blast
    have e: "setPointF (?st1\<lparr>hardware := (hardware ?st1)\<lparr>reads := reads (hardware ?st1) + 1\<rparr>\<rparr>)
        = setPointF st"
      using taskSampleTemperature_frame [of b now st] by simp
    show "\<exists>s st2 st'.
          readSetpointF b ?st1 = Some (s, st2)
        \<and> loop b now st = Some st'
        \<and> heaterOn st' = (if filteredTempF st' \<le> s - HYST_F * 0.5 then True
                           else if filteredTempF st' \<ge> s + HYST_F * 0.5 then False
                           else heaterOn st)
        \<and> setPointF st' = setPointF st
        \<and> region (statusLeds st') =
             region (setDisplayState (filteredTempF st') (setPointF st) (statusLeds st))"
      using rd l ht sp rg unfolding e by blast
  qed
  show ?thesis using lo hi lp demoStale_loop by blast
qed

theorem readSetpointF_stale_setPointF_witness:
  "potRaw demoBoard (initState demoBoard demoHw) \<le> MID_RAW
 \<and> (\<exists>st'. readSetpointF demoBoard (initState demoBoard demoHw) = Some (50, st')
        \<and> setPointF st' = 72)
 \<and> \<not> potRaw demoBoard demoHigh \<le> MID_RAW
 \<and> setPointF demoHigh = 72
 \<and> (\<exists>st'. readSetpointF demoBoard demoHigh = Some (90, st') \<and> setPointF st' = 90)
 \<and> \<not> (1000 - lastControlMs demoStale < CONTROL_UPDATE_MS)
 \<and> potRaw demoBoard (taskSampleTemperature demoBoard 1000 demoStale) \<le> MID_RAW
 \<and> (\<exists>st'. loop demoBoard 1000 demoStale = Some st' \<and> setPointF st' = setPointF demoStale
        \<and> region (statusLeds st') =
             region (setDisplayState (filteredTempF st') (setPointF demoStale) (statusLeds demoStale)))"
proof -
  have p1: "potRaw demoBoard (initState demoBoard demoHw) = 0"
    by (simp add: potRaw_def initState_def demoHw_def)
  have p2: "potRaw demoBoard demoHigh = 1023"
    by (simp add: potRaw_def demoHigh_def initState_def demoHw_def)
  have skip: "taskSampleTemperature demoBoard 1000 demoStale = demoStale"
    by (rule taskSampleTemperature_skip)
      (simp add: demoStale_def initState_def TEMP_SAMPLE_MS_def)
  have p3: "potRaw demoBoard (taskSampleTemperature demoBoard 1000 demoStale) = 0"
    unfolding skip by (simp add: potRaw_def demoStale_def initState_def demoHw_def)
  have due: "\<not> (1000 - lastControlMs demoStale < CONTROL_UPDATE_MS)"
    by (simp add: demoStale_def initState_def CONTROL_UPDATE_MS_def)
  have m: "(0::real) \<le> MID_RAW" "\<not> (1023::real) \<le> MID_RAW" by (simp_all add: MID_RAW_def)
  have i0: "setPointF (initState demoBoard demoHw) = 72" by (simp add: initState_def)
  have a: "\<exists>st'. readSetpointF demoBoard (initState demoBoard demoHw) = Some (50, st')
        \<and> setPointF st' = 72"
    using readSetpointF_stale_setPointF [of demoBoard "initState demoBoard demoHw" 0] p1 m i0
    by (simp add: MIN_SET_F_def)
  have i1: "setPointF demoHigh = 72" by (simp add: demoHigh_def initState_def)
  have v: "MID_SET_F + (MAX_SET_F - MID_SET_F) * ((1023 - MID_RAW) / (1023 - MID_RAW)) = 90"
    by (simp add: MID_SET_F_def MAX_SET_F_def MID_RAW_def)
  have b: "\<exists>st'. readSetpointF demoBoard demoHigh = Some (90, st') \<and> setPointF st' = 90"
  proof -
    have "readSetpointF demoBoard demoHigh =
        Some (90, demoHigh\<lparr>hardware := (hardware demoHigh)\<lparr>reads := reads (hardware demoHigh) + 1\<rparr>,
                 setPointF := 90\<rparr>)"
      using readSetpointF_stale_setPointF [of demoBoard demoHigh 0] p2 m unfolding v
      by (simp only: v simp_thms)
    then show ?thesis by simp
  qed
  have c: "\<exists>st'. loop demoBoard 1000 demoStale = Some st' \<and> setPointF st' = setPointF demoStale
        \<and> region (statusLeds st') =
             region (setDisplayState (filteredTempF st') (setPointF demoStale) (statusLeds demoStale))"
  proof -
    have le: "potRaw demoBoard (taskSampleTemperature demoBoard 1000 demoStale) \<le> MID_RAW"
      using p3 m by simp
    show ?thesis
      using readSetpointF_stale_setPointF [of demoBoard demoStale 1000] le due by blast
  qed
  show ?thesis using a b c p1 p2 p3 m due i1 by simp
qed

section \<open>Status display\<close>

text \<open>
  C3. \<open>updateLEDs\<close> writes the indicators only in a call where the interval gate is
  open and the region differs from \<open>lastRegion\<close>, and such a call stores the time
  and the region. Polled at non-decreasing times, two indicator writes are at least
  \<open>updateIntervalMs\<close> apart and each written region differs from the one written
  before it (the first from the initial \<open>lastRegion\<close>). With regions Below, Below,
  InBandBelow at 0, 50 and 250 ms and an interval of 200 ms on a fresh object, the
  only write is the one at 250 ms.
\<close>

theorem updateLEDs_debounce:
  "(writes (snd (updateLEDs now (L, h))) \<noteq> writes h \<longrightarrow>
      \<not> (now - lastUpdate L < updateIntervalMs L) \<and> region L \<noteq> lastRegion L
    \<and> lastUpdate (fst (updateLEDs now (L, h))) = now
    \<and> lastRegion (fst (updateLEDs now (L, h))) = region L)
 \<and> (sorted (map fst cs) \<longrightarrow>
      sorted_wrt (\<lambda>w1 w2. fst w1 + unat (updateIntervalMs L) \<le> fst w2) (pollLeds cs L h))
 \<and> distinct_adj (lastRegion L # map snd (pollLeds cs L h))
 \<and> map (\<lambda>(t, tempF, sp). region (setDisplayState tempF sp demoLeds))
       [(0 :: nat, 70, 72), (50, 70, 72), (250, 71.5, 72)] = [Below, Below, InBandBelow]
 \<and> updateIntervalMs demoLeds = 200
 \<and> pollLeds [(0, 70, 72), (50, 70, 72), (250, 71.5, 72)] demoLeds demoHw = [(250, InBandBelow)]"
proof -
  have i: "updateIntervalMs demoLeds = 200"
    by (simp add: demoLeds_def StatusLeds_new_def LED_UPDATE_MS_def)
  show ?thesis
    using updateLEDs_write_only_when [of now L h] pollLeds_spaced [of cs L h]
      pollLeds_regions [of L cs h] pollLeds_scenario i
    by blast
qed

theorem updateLEDs_debounce_witness:
  "writes (snd (updateLEDs 250 (demoLeds\<lparr>region := Below\<rparr>, demoHw))) \<noteq> writes demoHw
 \<and> \<not> (250 - lastUpdate (demoLeds\<lparr>region := Below\<rparr>) < updateIntervalMs (demoLeds\<lparr>region := Below\<rparr>))
 \<and> region (demoLeds\<lparr>region := Below\<rparr>) \<noteq> lastRegion (demoLeds\<lparr>region := Below\<rparr>)
 \<and> lastRegion (fst (updateLEDs 250 (demoLeds\<lparr>region := Below\<rparr>, demoHw))) = Below
 \<and> sorted (map fst [(0, 70, 72), (250, 70, 72), (300, 71.5, 72), (450, 71.5, 72), (500, 73, 72 :: real)
                       :: nat \<times> real \<times> real])
 \<and> pollLeds [(0, 70, 72), (250, 70, 72), (300, 71.5, 72), (450, 71.5, 72), (500, 73, 72)]
       demoLeds demoHw = [(250, Below), (450, InBandBelow)]
 \<and> sorted_wrt (\<lambda>w1 w2. fst w1 + unat (updateIntervalMs demoLeds) \<le> fst w2)
       [(250 :: nat, Below), (450, InBandBelow)]
 \<and> distinct_adj [lastRegion demoLeds, Below, InBandBelow]"
proof -
  let ?cs = "[(0, 70, 72), (250, 70, 72), (300, 71.5, 72), (450, 71.5, 72), (500, 73, 72)]
               :: (nat \<times> real \<times> real) list"
  have w: "writes (snd (updateLEDs 250 (demoLeds\<lparr>region := Below\<rparr>, demoHw))) \<noteq> writes demoHw"
    by (simp add: updateLEDs_writes demoLeds_def StatusLeds_new_def LED_UPDATE_MS_def demoHw_def)
  have s: "sorted (map fst ?cs)" by simp
  have a: "\<not> (250 - lastUpdate (demoLeds\<lparr>region := Below\<rparr>) < updateIntervalMs (demoLeds\<lparr>region := Below\<rparr>))
      \<and> region (demoLeds\<lparr>region := Below\<rparr>) \<noteq> lastRegion (demoLeds\<lparr>region := Below\<rparr>)
      \<and> lastRegion (fst (updateLEDs 250 (demoLeds\<lparr>region := Below\<rparr>, demoHw))) = Below"
  proof -
    have "\<not> (250 - lastUpdate (demoLeds\<lparr>region := Below\<rparr>) < updateIntervalMs (demoLeds\<lparr>region := Below\<rparr>))
      \<and> region (demoLeds\<lparr>region := Below\<rparr>) \<noteq> lastRegion (demoLeds\<lparr>region := Below\<rparr>)
      \<and> lastRegion (fst (updateLEDs 250 (demoLeds\<lparr>region := Below\<rparr>, demoHw)))
            = region (demoLeds\<lparr>region := Below\<rparr>)"
      using updateLEDs_debounce [of 250 "demoLeds\<lparr>region := Below\<rparr>" demoHw] w by blast
    then show ?thesis by simp
  qed
  have b: "sorted_wrt (\<lambda>w1 w2. fst w1 + unat (updateIntervalMs demoLeds) \<le> fst w2)
       [(250 :: nat, Below), (450, InBandBelow)]
     \<and> distinct_adj [lastRegion demoLeds, Below, InBandBelow]"
    using updateLEDs_debounce [of _ demoLeds demoHw ?cs] s
    by (simp only: pollLeds_demo) simp
  show ?thesis using w s a b pollLeds_demo by blast
qed

text \<open>
  C7. Whenever \<open>updateLEDs\<close> writes the indicators, it appends exactly three
  \<open>digitalWrite\<close> calls, to the above, in-band and below pins in this order, with
  the levels of the region's row: Below (0,0,1), InBandBelow (0,1,1), AtSetPoint
  (0,1,0), InBandAbove (1,1,0), Above (1,0,0).
\<close>

theorem updateLEDs_indicator_lines:
  assumes "writes (snd (updateLEDs now (L, h))) \<noteq> writes h"
  shows "(region L = Below \<longrightarrow> writes (snd (updateLEDs now (L, h))) =
            writes h @ [(abovePin L, False), (inBandPin L, False), (belowPin L, True)])
       \<and> (region L = InBandBelow \<longrightarrow> writes (snd (updateLEDs now (L, h))) =
            writes h @ [(abovePin L, False), (inBandPin L, True), (belowPin L, True)])
       \<and> (region L = AtSetPoint \<longrightarrow> writes (snd (updateLEDs now (L, h))) =
            writes h @ [(abovePin L, False), (inBandPin L, True), (belowPin L, False)])
       \<and> (region L = InBandAbove \<longrightarrow> writes (snd (updateLEDs now (L, h))) =
            writes h @ [(abovePin L, True), (inBandPin L, True), (belowPin L, False)])
       \<and> (region L = Above \<longrightarrow> writes (snd (updateLEDs now (L, h))) =
            writes h @ [(abovePin L, True), (inBandPin L, False), (belowPin L, False)])"
  using assms by (auto simp add: updateLEDs_writes split: if_splits)

theorem updateLEDs_indicator_lines_witness:
  "writes (snd (updateLEDs 250 (demoLeds\<lparr>region := Below\<rparr>, demoHw))) = [(1, False), (2, False), (0, True)]
 \<and> writes (snd (updateLEDs 250 (demoLeds\<lparr>region := InBandBelow\<rparr>, demoHw))) = [(1, False), (2, True), (0, True)]
 \<and> writes (snd (updateLEDs 250 (demoLeds\<lparr>region := AtSetPoint, lastRegion := Below\<rparr>, demoHw))) = [(1, False), (2, True), (0, False)]
 \<and> writes (snd (updateLEDs 250 (demoLeds\<lparr>region := InBandAbove\<rparr>, demoHw))) = [(1, True), (2, True), (0, False)]
 \<and> writes (snd (updateLEDs 250 (demoLeds\<lparr>region := Above\<rparr>, demoHw))) = [(1, True), (2, False), (0, False)]"
proof -
  have w: "\<And>r l. r \<noteq> l \<Longrightarrow>
     writes (snd (updateLEDs 250 (demoLeds\<lparr>region := r, lastRegion := l\<rparr>, demoHw))) \<noteq> writes demoHw"
    by (simp add: updateLEDs_writes demoLeds_def demoHw_def StatusLeds_new_def LED_UPDATE_MS_def)
  have l: "\<And>r. demoLeds\<lparr>region := r\<rparr> = demoLeds\<lparr>region := r, lastRegion := AtSetPoint\<rparr>"
    by (simp add: demoLeds_def StatusLeds_new_def)
  show ?thesis
    using updateLEDs_indicator_lines [OF w, of Below AtSetPoint]
          updateLEDs_indicator_lines [OF w, of InBandBelow AtSetPoint]
          updateLEDs_indicator_lines [OF w, of AtSetPoint Below]
          updateLEDs_indicator_lines [OF w, of InBandAbove AtSetPoint]
          updateLEDs_indicator_lines [OF w, of Above AtSetPoint]
    by (simp add: l demoLeds_def demoHw_def StatusLeds_new_def)
qed

text \<open>
  C10. \<open>setDisplayState\<close> never leaves the region \<open>AtSetPoint\<close>: the result is one
  of Below, InBandBelow, InBandAbove and Above, and a temperature equal to the
  setpoint is InBandBelow (for a hysteresis width that is not negative). The
  constructor sets both \<open>region\<close> and \<open>lastRegion\<close> to \<open>AtSetPoint\<close>;
  \<open>setDisplayState\<close> leaves \<open>lastRegion\<close> alone, and \<open>updateLEDs\<close> leaves
  \<open>region\<close> alone and gives \<open>lastRegion\<close> its old value or that of \<open>region\<close>.
\<close>

theorem setDisplayState_AtSetPoint_unreachable:
  "region (setDisplayState tempF sp L) \<noteq> AtSetPoint
 \<and> region (setDisplayState tempF sp L) \<in> {Below, InBandBelow, InBandAbove, Above}
 \<and> (0 \<le> hysteresisF L \<longrightarrow> region (setDisplayState sp sp L) = InBandBelow)
 \<and> region (StatusLeds_new pa pn pb hy iv) = AtSetPoint
 \<and> lastRegion (StatusLeds_new pa pn pb hy iv) = AtSetPoint
 \<and> lastRegion (setDisplayState tempF sp L) = lastRegion L
 \<and> region (fst (updateLEDs now (L, h))) = region L
 \<and> lastRegion (fst (updateLEDs now (L, h))) \<in> {lastRegion L, region L}"
proof -
  have "region (setDisplayState tempF sp L) \<in> {Below, InBandBelow, InBandAbove, Above}"
    using setDisplayState_never_AtSetPoint [of tempF sp L]
    by (cases "region (setDisplayState tempF sp L)") simp_all
  moreover have "lastRegion (setDisplayState tempF sp L) = lastRegion L"
    by (simp add: setDisplayState_def Let_def)
  ultimately show ?thesis
    using setDisplayState_never_AtSetPoint [of tempF sp L] setDisplayState_equal [of L sp]
      updateLEDs_region [of now L h] updateLEDs_lastRegion [of now L h]
    by (simp add: StatusLeds_new_def)
qed

theorem setDisplayState_AtSetPoint_unreachable_witness:
  "(0::real) \<le> hysteresisF demoLeds \<and> region (setDisplayState 72 72 demoLeds) = InBandBelow
   \<and> region (setDisplayState 72 72 demoLeds) \<noteq> AtSetPoint"
  using setDisplayState_AtSetPoint_unreachable [of 72 72 demoLeds]
  by (simp add: demoLeds_def StatusLeds_new_def HYST_F_def)

text \<open>
  C4. At a temperature equal to the setpoint, with the sketch's hysteresis width,
  \<open>setDisplayState\<close> answers InBandBelow and not AtSetPoint: the second branch
  (\<open>tempF <= setPointF\<close>) takes the case before the final \<open>else\<close> is reached.
\<close>

theorem setDisplayState_equality_is_InBandBelow:
  "region (setDisplayState 72 72 (StatusLeds_new pa pn pb HYST_F LED_UPDATE_MS)) = InBandBelow
 \<and> region (setDisplayState 72 72 (StatusLeds_new pa pn pb HYST_F LED_UPDATE_MS)) \<noteq> AtSetPoint"
  by (simp add: setDisplayState_def StatusLeds_new_def HYST_F_def Let_def)

section \<open>Setpoint dial\<close>

text \<open>
  C9. The guarded quotient of each segment always has a value, and that value is
  zero when the raw span is zero, so no division by zero is evaluated; the mapping
  and \<open>readSetpointF\<close> return a setpoint for every raw value, state and converter.
\<close>

theorem readSetpointF_total:
  "segFrac x spanRaw \<noteq> None
 \<and> (spanRaw = 0 \<longrightarrow> segFrac x spanRaw = Some 0)
 \<and> (\<exists>s st'. mapSetpoint raw st = Some (s, st'))
 \<and> (\<exists>s st'. readSetpointF b st = Some (s, st'))"
proof -
  have m: "\<exists>s st'. mapSetpoint r st0 = Some (s, st')" for r st0
    by (cases "r \<le> MID_RAW") (simp_all add: mapSetpoint_lower mapSetpoint_upper)
  show ?thesis
    using m by (simp add: segFrac_def fdiv_def readSetpointF_def analogRead_def Let_def)
qed

theorem readSetpointF_total_witness:
  "segFrac 100 0 = Some 0 \<and> segFrac 100 0 \<noteq> None"
  using readSetpointF_total [of 100 0] by simp

text \<open>
  C6. The mapping sends raw 0 to \<open>MIN_SET_F\<close>, raw \<open>MID_RAW\<close> to \<open>MID_SET_F\<close> and
  raw 1023 to \<open>MAX_SET_F\<close>, and within the lower segment (up to \<open>MID_RAW\<close>) and
  within the upper segment (from \<open>MID_RAW\<close>) a larger raw value gives a setpoint that
  is not smaller. A dial sample of 0 or 1023 read by \<open>readSetpointF\<close> gives
  \<open>MIN_SET_F\<close> or \<open>MAX_SET_F\<close>.
\<close>

theorem mapSetpoint_anchors_monotone:
  "map_option fst (mapSetpoint 0 st) = Some MIN_SET_F
 \<and> map_option fst (mapSetpoint MID_RAW st) = Some MID_SET_F
 \<and> map_option fst (mapSetpoint 1023 st) = Some MAX_SET_F
 \<and> (r1 \<le> r2 \<and> r2 \<le> MID_RAW \<longrightarrow>
      (\<exists>s1 s2 st1 st2. mapSetpoint r1 st = Some (s1, st1) \<and> mapSetpoint r2 st = Some (s2, st2) \<and> s1 \<le> s2))
 \<and> (MID_RAW \<le> r1 \<and> r1 \<le> r2 \<longrightarrow>
      (\<exists>s1 s2 st1 st2. mapSetpoint r1 st = Some (s1, st1) \<and> mapSetpoint r2 st = Some (s2, st2) \<and> s1 \<le> s2))
 \<and> (adc (hardware st) (POT_PIN b) (reads (hardware st)) = 0 \<longrightarrow>
      map_option fst (readSetpointF b st) = Some MIN_SET_F)
 \<and> (adc (hardware st) (POT_PIN b) (reads (hardware st)) = 1023 \<longrightarrow>
      map_option fst (readSetpointF b st) = Some MAX_SET_F)"
proof -
  have a0: "map_option fst (mapSetpoint 0 st0) = Some MIN_SET_F" for st0
    by (simp add: mapSetpoint_lower MID_RAW_def)
  have am: "map_option fst (mapSetpoint MID_RAW st) = Some MID_SET_F"
    by (simp add: mapSetpoint_lower) (simp add: MID_RAW_def)
  have a1: "map_option fst (mapSetpoint 1023 st0) = Some MAX_SET_F" for st0
    by (simp add: mapSetpoint_upper MID_RAW_def)
  have val: "map_option fst (mapSetpoint r st) =
      Some (if r \<le> MID_RAW then MIN_SET_F + (MID_SET_F - MIN_SET_F) * (r / MID_RAW)
            else MID_SET_F + (MAX_SET_F - MID_SET_F) * ((r - MID_RAW) / (1023 - MID_RAW)))" for r
    by (simp add: mapSetpoint_lower mapSetpoint_upper)
  have ex: "\<exists>s st'. mapSetpoint r st = Some (s, st')" for r
    by (cases "r \<le> MID_RAW") (simp_all add: mapSetpoint_lower mapSetpoint_upper)
  have mono: "r1 \<le> r2 \<Longrightarrow>
      (if r1 \<le> MID_RAW then MIN_SET_F + (MID_SET_F - MIN_SET_F) * (r1 / MID_RAW)
       else MID_SET_F + (MAX_SET_F - MID_SET_F) * ((r1 - MID_RAW) / (1023 - MID_RAW)))
    \<le> (if r2 \<le> MID_RAW then MIN_SET_F + (MID_SET_F - MIN_SET_F) * (r2 / MID_RAW)
       else MID_SET_F + (MAX_SET_F - MID_SET_F) * ((r2 - MID_RAW) / (1023 - MID_RAW)))"
    by (simp add: MID_RAW_def MIN_SET_F_def MID_SET_F_def MAX_SET_F_def field_simps)
  have both: "r1 \<le> r2 \<longrightarrow>
      (\<exists>s1 s2 st1 st2. mapSetpoint r1 st = Some (s1, st1) \<and> mapSetpoint r2 st = Some (s2, st2) \<and> s1 \<le> s2)"
  proof
    assume le: "r1 \<le> r2"
    obtain s1 st1 where m1: "mapSetpoint r1 st = Some (s1, st1)" using ex by blast
    obtain s2 st2 where m2: "mapSetpoint r2 st = Some (s2, st2)" using ex by blast
    have "s1 \<le> s2" using mono [OF le] val [of r1] val [of r2] m1 m2 by simp
    with m1 m2 show "\<exists>s1 s2 st1 st2. mapSetpoint r1 st = Some (s1, st1) \<and>
        mapSetpoint r2 st = Some (s2, st2) \<and> s1 \<le> s2" by blast
  qed
  show ?thesis
    using a0 am a1 both by (simp add: readSetpointF_def analogRead_def Let_def)
qed

theorem mapSetpoint_anchors_monotone_witness:
  "(100::real) \<le> 200 \<and> 200 \<le> MID_RAW \<and> MID_RAW \<le> 600 \<and> (600::real) \<le> 700
 \<and> (\<exists>s1 s2 st1 st2. mapSetpoint 100 (initState demoBoard demoHw) = Some (s1, st1)
        \<and> mapSetpoint 200 (initState demoBoard demoHw) = Some (s2, st2) \<and> s1 \<le> s2)
 \<and> (\<exists>s1 s2 st1 st2. mapSetpoint 600 (initState demoBoard demoHw) = Some (s1, st1)
        \<and> mapSetpoint 700 (initState demoBoard demoHw) = Some (s2, st2) \<and> s1 \<le> s2)
 \<and> map_option fst (readSetpointF demoBoard (initState demoBoard demoHw)) = Some MIN_SET_F
 \<and> map_option fst (readSetpointF demoBoard
        (initState demoBoard (demoHw\<lparr>adc := \<lambda>pin k. 1023\<rparr>))) = Some MAX_SET_F"
  using mapSetpoint_anchors_monotone [of "initState demoBoard demoHw" 100 200 demoBoard]
        mapSetpoint_anchors_monotone [of "initState demoBoard demoHw" 600 700 demoBoard]
        mapSetpoint_anchors_monotone
          [of "initState demoBoard (demoHw\<lparr>adc := \<lambda>pin k. 1023\<rparr>)" 0 0 demoBoard]
  by (simp add: MID_RAW_def initState_def demoHw_def)

section \<open>Temperature sensor\<close>

text \<open>
  C8. \<open>readTemperatureC\<close> averages the eight samples into a voltage and clamps it
  before the transfer function: a voltage below 0.2 gives the temperature of 0.2, a
  voltage above 2.8 gives the temperature of 2.8, a voltage in between is used as it
  is. Every input gives a temperature, between those of the two clamp values.
\<close>

theorem readTemperatureC_clamps_voltage:
  "fst (readVoltage b h) =
     real (unat (\<Sum>k = 0..<8. word_of_int (adc h (TEMP_PIN b) (reads h + k)) :: 32 word)) / 8 * VREF / 1023
 \<and> (fst (readVoltage b h) < 0.2 \<longrightarrow>
      fst (readTemperatureC b h) = (LM19_V0C - 0.2) / LM19_SLOPE)
 \<and> (fst (readVoltage b h) > 2.8 \<longrightarrow>
      fst (readTemperatureC b h) = (LM19_V0C - 2.8) / LM19_SLOPE)
 \<and> (0.2 \<le> fst (readVoltage b h) \<and> fst (readVoltage b h) \<le> 2.8 \<longrightarrow>
      fst (readTemperatureC b h) = (LM19_V0C - fst (readVoltage b h)) / LM19_SLOPE)
 \<and> (LM19_V0C - 2.8) / LM19_SLOPE \<le> fst (readTemperatureC b h)
 \<and> fst (readTemperatureC b h) \<le> (LM19_V0C - 0.2) / LM19_SLOPE"
proof -
  define v where "v = fst (readVoltage b h)"
  have T: "fst (readTemperatureC b h) =
      (LM19_V0C - (if v < 0.2 then 0.2 else if v > 2.8 then 2.8 else v)) / LM19_SLOPE"
    unfolding v_def by (rule readTemperatureC_value)
  have slope: "0 \<le> LM19_SLOPE" by (simp add: LM19_SLOPE_def)
  have c1: "v < 0.2 \<longrightarrow> fst (readTemperatureC b h) = (LM19_V0C - 0.2) / LM19_SLOPE"
    using T by simp
  have c2: "v > 2.8 \<longrightarrow> fst (readTemperatureC b h) = (LM19_V0C - 2.8) / LM19_SLOPE"
    using T by simp
  have c3: "0.2 \<le> v \<and> v \<le> 2.8 \<longrightarrow> fst (readTemperatureC b h) = (LM19_V0C - v) / LM19_SLOPE"
    using T by simp
  have "LM19_V0C - 2.8 \<le> LM19_V0C - (if v < 0.2 then 0.2 else if v > 2.8 then 2.8 else v)"
    by simp
  then have lb: "(LM19_V0C - 2.8) / LM19_SLOPE \<le> fst (readTemperatureC b h)"
    unfolding T using slope by (rule divide_right_mono)
  have "LM19_V0C - (if v < 0.2 then 0.2 else if v > 2.8 then 2.8 else v) \<le> LM19_V0C - 0.2"
    by simp
  then have ub: "fst (readTemperatureC b h) \<le> (LM19_V0C - 0.2) / LM19_SLOPE"
    unfolding T using slope by (rule divide_right_mono)
  show ?thesis
    using readVoltage_samples [of b h] c1 c2 c3 lb ub unfolding v_def by blast
qed

theorem readTemperatureC_clamps_voltage_witness:
  "fst (readVoltage demoBoard demoHw) = 0
 \<and> fst (readTemperatureC demoBoard demoHw) = (LM19_V0C - 0.2) / LM19_SLOPE
 \<and> fst (readVoltage demoBoard (demoHw\<lparr>adc := \<lambda>pin k. 1023\<rparr>)) = 5
 \<and> fst (readTemperatureC demoBoard (demoHw\<lparr>adc := \<lambda>pin k. 1023\<rparr>)) = (LM19_V0C - 2.8) / LM19_SLOPE
 \<and> fst (readVoltage demoBoard (demoHw\<lparr>adc := \<lambda>pin k. 300\<rparr>)) = 500 / 341
 \<and> fst (readTemperatureC demoBoard (demoHw\<lparr>adc := \<lambda>pin k. 300\<rparr>)) = (LM19_V0C - 500 / 341) / LM19_SLOPE"
  using readTemperatureC_clamps_voltage [of demoBoard demoHw]
        readTemperatureC_clamps_voltage [of demoBoard "demoHw\<lparr>adc := \<lambda>pin k. 1023\<rparr>"]
        readTemperatureC_clamps_voltage [of demoBoard "demoHw\<lparr>adc := \<lambda>pin k. 300\<rparr>"]
  by (simp add: demoHw_def VREF_def)

end
